theory Spec2Isabelle
  imports Main "HOL-Library.AList"
begin

section \<open>Room coordination relay (server/socket-server.ts)\<close>

text \<open>
  The relay keeps one registry \<open>rooms\<close> (a JavaScript \<open>Map\<close> from room id to room
  object) and, per connection, the object \<open>socket.data\<close>. Every handler is modelled as a
  function from the server state to the new state and the list of emissions, in the
  order the source performs them. The clock (\<open>Date.now()\<close>) and the random suffix
  (\<open>Math.random().toString(36).substr(2, 9)\<close>) are inputs of a handler run; one run
  reads one clock value.
\<close>

subsection \<open>Data\<close>

text \<open>The member object stored by \<open>join-room\<close>: \<open>{id, name, isModerator, canDraw, handRaised}\<close>.\<close>

record member =
  id_m :: string
  name_m :: string
  isModerator :: bool
  canDraw :: bool
  handRaised_m :: bool

text \<open>Drawings, chat messages and reactions are client objects of which the server only
  touches the field \<open>id\<close>; the remaining fields are kept as one opaque body.\<close>

record drawing =
  id_d :: string
  body_d :: string

record message =
  id_msg :: string
  body_msg :: string

record reaction =
  id_r :: string
  body_r :: string

text \<open>The room object created by \<open>getOrCreateRoom\<close>. \<open>members\<close> is a JavaScript \<open>Map\<close>:
  an association list in insertion order with distinct keys.\<close>

record room =
  locked :: bool
  password :: "string option"
  hostId :: "string option"
  members :: "(string \<times> member) list"
  whiteboardDrawings :: "drawing list"
  whiteboardBackground :: "string option"
  allowedUsers :: "string set"
  lastActivity :: int
  handRaised :: "string set"

text \<open>\<open>socket.data\<close> after a successful join: \<open>{userId, roomId, userName}\<close>, to which
  \<open>chat:send\<close> adds \<open>lastChatTime\<close>. Before the first join it is the empty object,
  modelled as \<open>None\<close>.\<close>

record sockdata =
  userId :: string
  roomId :: string
  userName :: string
  lastChatTime :: "int option"

text \<open>A connection: its \<open>socket.data\<close> and the socket.io rooms it has joined. socket.io
  puts every socket into the room named by its own socket id; \<open>socket.join(r)\<close> adds
  \<open>r\<close>.\<close>

record conn =
  data :: "sockdata option"
  joined :: "string set"

record server =
  rooms :: "string \<rightharpoonup> room"
  sockets :: "(string \<times> conn) list"

text \<open>Where an emission goes: \<open>socket.emit\<close>, \<open>io.to(r).emit\<close>, \<open>socket.to(r).emit\<close>.\<close>

datatype audience = ToSender | ToRoom string | ToOthers string

datatype payload =
    EvError string
  | EvPasswordRequired
  | EvRoomState bool "string option" "member list" "bool option"
  | EvWhiteboardState "drawing list" "string option"
  | EvRoomMembers "member list"
  | EvRoomLocked
  | EvRoomUnlocked
  | EvChatReceive message "bool option"
  | EvWhiteboardEnable
  | EvWhiteboardDisable
  | EvWhiteboardDrawing drawing
  | EvWhiteboardBackground string
  | EvWhiteboardClear
  | EvUserPermission string bool
  | EvHostChanged string
  | EvHandRaised string string
  | EvHandLowered string
  | EvHandLoweredAll
  | EvForceMute
  | EvForceLeave
  | EvReaction reaction

type_synonym emission = "audience \<times> payload"

text \<open>Inbound events with their payloads, as the handlers destructure them.\<close>

datatype event =
    JoinRoom string string string "string option"
  | RoomLock string string
  | RoomUnlock string
  | ChatSend string "message option"
  | WhiteboardEnable string
  | WhiteboardDisable string
  | WhiteboardDrawing string drawing
  | WhiteboardBackground string string
  | WhiteboardClear string
  | AllowUser string string bool
  | MakeHost string string
  | HandRaise string
  | HandLower string
  | HandLowerAll string
  | MuteUser string string
  | RemoveUser string string
  | ReactionSend string reaction
  | Disconnect

subsection \<open>JavaScript helpers\<close>

text \<open>Truthiness of a string-or-null value: \<open>null\<close> and the empty string are falsy.\<close>

definition truthy :: "string option \<Rightarrow> bool" where
  "truthy v = (case v of None \<Rightarrow> False | Some s \<Rightarrow> s \<noteq> [])"

text \<open>\<open>room.password !== password\<close>: the stored value is \<open>null\<close> or a string, the given one
  \<open>undefined\<close> or a string; \<open>null !== undefined\<close> holds.\<close>

definition strict_neq :: "string option \<Rightarrow> string option \<Rightarrow> bool" where
  "strict_neq stored given =
     (case stored of None \<Rightarrow> True
      | Some a \<Rightarrow> (case given of None \<Rightarrow> True | Some b \<Rightarrow> a \<noteq> b))"

text \<open>Decimal rendering of the clock value inside a template string.\<close>

definition digit_char :: "nat \<Rightarrow> char" where
  "digit_char d = ''0123456789'' ! d"

function show_nat :: "nat \<Rightarrow> string" where
  "show_nat n = (if n < 10 then [digit_char n] else show_nat (n div 10) @ [digit_char (n mod 10)])"
  by pat_completeness auto
termination
  by (relation "measure (\<lambda>n. n)") auto

declare show_nat.simps [simp del]

definition show_int :: "int \<Rightarrow> string" where
  "show_int i = (if i < 0 then CHR ''-'' # show_nat (nat (- i)) else show_nat (nat i))"

text \<open>\<open>`${socket.data.userId}-${Date.now()}-${Math.random().toString(36).substr(2, 9)}`\<close>\<close>

definition make_id :: "string \<Rightarrow> int \<Rightarrow> string \<Rightarrow> string" where
  "make_id uid now rnd = uid @ ''-'' @ show_int now @ ''-'' @ rnd"

subsection \<open>Registry and connection table\<close>

definition new_room :: "int \<Rightarrow> room" where
  "new_room t = \<lparr>locked = False, password = None, hostId = None, members = [],
     whiteboardDrawings = [], whiteboardBackground = None, allowedUsers = {},
     lastActivity = t, handRaised = {}\<rparr>"

text \<open>\<open>getOrCreateRoom\<close>: the room object the call returns. The object is stored in the
  registry by reference, so the stamp on \<open>lastActivity\<close> (and the creation) is visible
  to every later lookup; \<open>put_room\<close> writes the object back.\<close>

definition getOrCreateRoom :: "int \<Rightarrow> string \<Rightarrow> (string \<rightharpoonup> room) \<Rightarrow> room" where
  "getOrCreateRoom t rid rs =
     (case rs rid of None \<Rightarrow> new_room t | Some rm \<Rightarrow> rm)\<lparr>lastActivity := t\<rparr>"

definition put_room :: "string \<Rightarrow> room \<Rightarrow> server \<Rightarrow> server" where
  "put_room rid rm \<sigma> = \<sigma>\<lparr>rooms := (rooms \<sigma>)(rid \<mapsto> rm)\<rparr>"

text \<open>The guard \<open>if (!socket.data?.userId || !socket.data?.roomId) return\<close>: the session of
  a socket that passes it.\<close>

definition session :: "server \<Rightarrow> string \<Rightarrow> sockdata option" where
  "session \<sigma> s =
     (case map_of (sockets \<sigma>) s of None \<Rightarrow> None
      | Some c \<Rightarrow> (case data c of None \<Rightarrow> None
          | Some d \<Rightarrow> if userId d = [] \<or> roomId d = [] then None else Some d))"

definition upd_conn :: "string \<Rightarrow> (conn \<Rightarrow> conn) \<Rightarrow> (string \<times> conn) list \<Rightarrow> (string \<times> conn) list" where
  "upd_conn s f cs = map (\<lambda>(k, c). if k = s then (k, f c) else (k, c)) cs"

text \<open>The member list sent in snapshots: \<open>Array.from(room.members.values())\<close>.\<close>

definition member_values :: "room \<Rightarrow> member list" where
  "member_values rm = map snd (members rm)"

text \<open>\<open>const m = room.members.get(k); if (m) { ... }\<close>: mutate the member object stored
  under \<open>k\<close>, when there is one.\<close>

definition with_member :: "string \<Rightarrow> (member \<Rightarrow> member) \<Rightarrow> room \<Rightarrow> room" where
  "with_member k f rm =
     (case map_of (members rm) k of None \<Rightarrow> rm
      | Some m \<Rightarrow> rm\<lparr>members := AList.update k (f m) (members rm)\<rparr>)"

subsection \<open>Handlers\<close>

definition join_room ::
  "int \<Rightarrow> string \<Rightarrow> string \<Rightarrow> string \<Rightarrow> string \<Rightarrow> string option \<Rightarrow> server \<Rightarrow> server \<times> emission list" where
  "join_room t s rid uid uname pw \<sigma> =
     (if rid = [] \<or> uid = [] then (\<sigma>, [(ToSender, EvError ''Invalid room or user ID'')])
      else
        let rm = getOrCreateRoom t rid (rooms \<sigma>) in
        if locked rm \<and> truthy (hostId rm) \<and> hostId rm \<noteq> Some uid \<and> strict_neq (password rm) pw
        then (put_room rid rm \<sigma>, [(ToSender, EvPasswordRequired)])
        else
          let rm1 = (if \<not> truthy (hostId rm)
                     then rm\<lparr>hostId := Some uid, allowedUsers := insert uid (allowedUsers rm)\<rparr>
                     else rm);
              m = \<lparr>id_m = uid, name_m = uname, isModerator = (hostId rm1 = Some uid),
                   canDraw = (uid \<in> allowedUsers rm1), handRaised_m = (uid \<in> handRaised rm1)\<rparr>;
              rm2 = rm1\<lparr>members := AList.update uid m (members rm1)\<rparr>;
              d = \<lparr>userId = uid, roomId = rid, userName = uname, lastChatTime = None\<rparr>;
              \<sigma>1 = put_room rid rm2 \<sigma>
          in (\<sigma>1\<lparr>sockets :=
                 upd_conn s (\<lambda>c. c\<lparr>data := Some d, joined := insert rid (joined c)\<rparr>) (sockets \<sigma>1)\<rparr>,
              [(ToSender, EvRoomState (locked rm2) (hostId rm2) (member_values rm2)
                            (Some (uid \<in> allowedUsers rm2))),
               (ToSender, EvWhiteboardState (whiteboardDrawings rm2) (whiteboardBackground rm2)),
               (ToOthers rid, EvRoomMembers (member_values rm2))]))"

definition room_lock :: "int \<Rightarrow> string \<Rightarrow> string \<Rightarrow> string \<Rightarrow> server \<Rightarrow> server \<times> emission list" where
  "room_lock t s rid pw \<sigma> =
     (case session \<sigma> s of None \<Rightarrow> (\<sigma>, [])
      | Some d \<Rightarrow>
          let rm = getOrCreateRoom t rid (rooms \<sigma>) in
          if hostId rm = Some (userId d) \<and> pw \<noteq> []
          then (put_room rid (rm\<lparr>locked := True, password := Some pw\<rparr>) \<sigma>,
                [(ToRoom rid, EvRoomLocked)])
          else (put_room rid rm \<sigma>, []))"

definition room_unlock :: "int \<Rightarrow> string \<Rightarrow> string \<Rightarrow> server \<Rightarrow> server \<times> emission list" where
  "room_unlock t s rid \<sigma> =
     (case session \<sigma> s of None \<Rightarrow> (\<sigma>, [])
      | Some d \<Rightarrow>
          let rm = getOrCreateRoom t rid (rooms \<sigma>) in
          if hostId rm = Some (userId d)
          then (put_room rid (rm\<lparr>locked := False, password := None\<rparr>) \<sigma>,
                [(ToRoom rid, EvRoomUnlocked)])
          else (put_room rid rm \<sigma>, []))"

text \<open>\<open>chat:send\<close>. The throttle test is
  \<open>!socket.data.lastChatTime || Date.now() - socket.data.lastChatTime > 1000\<close>; a stamp of
  \<open>0\<close> is falsy. The payload \<open>message\<close> is untyped: \<open>None\<close> stands for one that is not
  an object (\<open>null\<close>, \<open>undefined\<close>, a primitive), on which assigning \<open>message.id\<close>
  throws, so that the \<open>catch\<close> reports the failure to the sender.\<close>

definition throttle_open :: "int \<Rightarrow> sockdata \<Rightarrow> bool" where
  "throttle_open t d = (case lastChatTime d of None \<Rightarrow> True | Some l \<Rightarrow> l = 0 \<or> t - l > 1000)"

definition chat_send ::
  "int \<Rightarrow> string \<Rightarrow> string \<Rightarrow> string \<Rightarrow> message option \<Rightarrow> server \<Rightarrow> server \<times> emission list" where
  "chat_send t rnd s rid msg \<sigma> =
     (case session \<sigma> s of None \<Rightarrow> (\<sigma>, [])
      | Some d \<Rightarrow>
          if throttle_open t d
          then (case msg of
                  None \<Rightarrow> (\<sigma>, [(ToSender, EvError ''Failed to send message'')])
                | Some m \<Rightarrow>
                    (\<sigma>\<lparr>sockets := upd_conn s (\<lambda>c. c\<lparr>data := Some (d\<lparr>lastChatTime := Some t\<rparr>)\<rparr>)
                                   (sockets \<sigma>)\<rparr>,
                     [(ToRoom rid, EvChatReceive (m\<lparr>id_msg := make_id (userId d) t rnd\<rparr>) (Some False))]))
          else (\<sigma>, [(ToSender, EvError ''Message rate limit exceeded'')]))"

text \<open>\<open>whiteboard:enable\<close> and \<open>whiteboard:disable\<close>: informational, host only.\<close>

definition whiteboard_enable :: "int \<Rightarrow> string \<Rightarrow> string \<Rightarrow> server \<Rightarrow> server \<times> emission list" where
  "whiteboard_enable t s rid \<sigma> =
     (case session \<sigma> s of None \<Rightarrow> (\<sigma>, [])
      | Some d \<Rightarrow>
          let rm = getOrCreateRoom t rid (rooms \<sigma>) in
          (put_room rid rm \<sigma>,
           if hostId rm = Some (userId d) then [(ToRoom rid, EvWhiteboardEnable)] else []))"

definition whiteboard_disable :: "int \<Rightarrow> string \<Rightarrow> string \<Rightarrow> server \<Rightarrow> server \<times> emission list" where
  "whiteboard_disable t s rid \<sigma> =
     (case session \<sigma> s of None \<Rightarrow> (\<sigma>, [])
      | Some d \<Rightarrow>
          let rm = getOrCreateRoom t rid (rooms \<sigma>) in
          (put_room rid rm \<sigma>,
           if hostId rm = Some (userId d) then [(ToRoom rid, EvWhiteboardDisable)] else []))"

text \<open>\<open>whiteboard:drawing\<close>: gated by \<open>room.allowedUsers.has(socket.data.userId)\<close>; the id
  of the drawing is overwritten before it is stored and relayed.\<close>

definition whiteboard_drawing ::
  "int \<Rightarrow> string \<Rightarrow> string \<Rightarrow> string \<Rightarrow> drawing \<Rightarrow> server \<Rightarrow> server \<times> emission list" where
  "whiteboard_drawing t rnd s rid dr \<sigma> =
     (case session \<sigma> s of None \<Rightarrow> (\<sigma>, [])
      | Some d \<Rightarrow>
          let rm = getOrCreateRoom t rid (rooms \<sigma>) in
          if userId d \<in> allowedUsers rm
          then let dr1 = dr\<lparr>id_d := make_id (userId d) t rnd\<rparr>
               in (put_room rid (rm\<lparr>whiteboardDrawings := whiteboardDrawings rm @ [dr1]\<rparr>) \<sigma>,
                   [(ToOthers rid, EvWhiteboardDrawing dr1)])
          else (put_room rid rm \<sigma>, []))"

definition whiteboard_background ::
  "int \<Rightarrow> string \<Rightarrow> string \<Rightarrow> string \<Rightarrow> server \<Rightarrow> server \<times> emission list" where
  "whiteboard_background t s rid bg \<sigma> =
     (case session \<sigma> s of None \<Rightarrow> (\<sigma>, [])
      | Some d \<Rightarrow>
          let rm = getOrCreateRoom t rid (rooms \<sigma>) in
          if userId d \<in> allowedUsers rm
          then (put_room rid (rm\<lparr>whiteboardBackground := Some bg\<rparr>) \<sigma>,
                [(ToOthers rid, EvWhiteboardBackground bg)])
          else (put_room rid rm \<sigma>, []))"

definition whiteboard_clear :: "int \<Rightarrow> string \<Rightarrow> string \<Rightarrow> server \<Rightarrow> server \<times> emission list" where
  "whiteboard_clear t s rid \<sigma> =
     (case session \<sigma> s of None \<Rightarrow> (\<sigma>, [])
      | Some d \<Rightarrow>
          let rm = getOrCreateRoom t rid (rooms \<sigma>) in
          if userId d \<in> allowedUsers rm
          then (put_room rid (rm\<lparr>whiteboardDrawings := [], whiteboardBackground := None\<rparr>) \<sigma>,
                [(ToOthers rid, EvWhiteboardClear)])
          else (put_room rid rm \<sigma>, []))"

definition allow_user ::
  "int \<Rightarrow> string \<Rightarrow> string \<Rightarrow> string \<Rightarrow> bool \<Rightarrow> server \<Rightarrow> server \<times> emission list" where
  "allow_user t s rid uid allow \<sigma> =
     (case session \<sigma> s of None \<Rightarrow> (\<sigma>, [])
      | Some d \<Rightarrow>
          let rm = getOrCreateRoom t rid (rooms \<sigma>) in
          if hostId rm = Some (userId d)
          then let rm1 = rm\<lparr>allowedUsers := (if allow then insert uid (allowedUsers rm)
                                                else allowedUsers rm - {uid})\<rparr>;
                   rm2 = with_member uid (\<lambda>m. m\<lparr>canDraw := allow\<rparr>) rm1
               in (put_room rid rm2 \<sigma>,
                   [(ToRoom rid, EvUserPermission uid allow),
                    (ToRoom rid, EvRoomMembers (member_values rm2))])
          else (put_room rid rm \<sigma>, []))"

text \<open>\<open>host:make-host\<close>. In the guarded branch \<open>room.hostId\<close> is the caller's user id; the
  old host object is looked up under it before \<open>hostId\<close> is overwritten.\<close>

definition make_host ::
  "int \<Rightarrow> string \<Rightarrow> string \<Rightarrow> string \<Rightarrow> server \<Rightarrow> server \<times> emission list" where
  "make_host t s rid uid \<sigma> =
     (case session \<sigma> s of None \<Rightarrow> (\<sigma>, [])
      | Some d \<Rightarrow>
          let rm = getOrCreateRoom t rid (rooms \<sigma>) in
          (case hostId rm of
             None \<Rightarrow> (put_room rid rm \<sigma>, [])
           | Some h \<Rightarrow>
               if h = userId d
               then let rm1 = with_member h (\<lambda>m. m\<lparr>isModerator := False\<rparr>) rm;
                        rm2 = rm1\<lparr>hostId := Some uid\<rparr>;
                        rm3 = with_member uid (\<lambda>m. m\<lparr>isModerator := True\<rparr>) rm2;
                        rm4 = rm3\<lparr>allowedUsers := insert uid (allowedUsers rm3)\<rparr>
                    in (put_room rid rm4 \<sigma>,
                        [(ToRoom rid, EvHostChanged uid),
                         (ToRoom rid, EvRoomMembers (member_values rm4))])
               else (put_room rid rm \<sigma>, [])))"

definition hand_raise :: "int \<Rightarrow> string \<Rightarrow> string \<Rightarrow> server \<Rightarrow> server \<times> emission list" where
  "hand_raise t s rid \<sigma> =
     (case session \<sigma> s of None \<Rightarrow> (\<sigma>, [])
      | Some d \<Rightarrow>
          let rm = getOrCreateRoom t rid (rooms \<sigma>);
              rm1 = rm\<lparr>handRaised := insert (userId d) (handRaised rm)\<rparr>;
              rm2 = with_member (userId d) (\<lambda>m. m\<lparr>handRaised_m := True\<rparr>) rm1
          in (put_room rid rm2 \<sigma>,
              [(ToRoom rid, EvHandRaised (userId d) (userName d)),
               (ToRoom rid, EvRoomMembers (member_values rm2))]))"

definition hand_lower :: "int \<Rightarrow> string \<Rightarrow> string \<Rightarrow> server \<Rightarrow> server \<times> emission list" where
  "hand_lower t s rid \<sigma> =
     (case session \<sigma> s of None \<Rightarrow> (\<sigma>, [])
      | Some d \<Rightarrow>
          let rm = getOrCreateRoom t rid (rooms \<sigma>);
              rm1 = rm\<lparr>handRaised := handRaised rm - {userId d}\<rparr>;
              rm2 = with_member (userId d) (\<lambda>m. m\<lparr>handRaised_m := False\<rparr>) rm1
          in (put_room rid rm2 \<sigma>,
              [(ToRoom rid, EvHandLowered (userId d)),
               (ToRoom rid, EvRoomMembers (member_values rm2))]))"

definition hand_lower_all :: "int \<Rightarrow> string \<Rightarrow> string \<Rightarrow> server \<Rightarrow> server \<times> emission list" where
  "hand_lower_all t s rid \<sigma> =
     (case session \<sigma> s of None \<Rightarrow> (\<sigma>, [])
      | Some d \<Rightarrow>
          let rm = getOrCreateRoom t rid (rooms \<sigma>) in
          if hostId rm = Some (userId d)
          then let rm1 = rm\<lparr>handRaised := {},
                          members := map (\<lambda>(k, m). (k, m\<lparr>handRaised_m := False\<rparr>)) (members rm)\<rparr>
               in (put_room rid rm1 \<sigma>,
                   [(ToRoom rid, EvHandLoweredAll),
                    (ToRoom rid, EvRoomMembers (member_values rm1))])
          else (put_room rid rm \<sigma>, []))"

text \<open>The moderator controls emit with \<open>socket.to(userId)\<close>: to the socket.io room whose
  name is the target's user id.\<close>

definition mute_user :: "int \<Rightarrow> string \<Rightarrow> string \<Rightarrow> string \<Rightarrow> server \<Rightarrow> server \<times> emission list" where
  "mute_user t s rid uid \<sigma> =
     (case session \<sigma> s of None \<Rightarrow> (\<sigma>, [])
      | Some d \<Rightarrow>
          let rm = getOrCreateRoom t rid (rooms \<sigma>) in
          (put_room rid rm \<sigma>,
           if hostId rm = Some (userId d) then [(ToOthers uid, EvForceMute)] else []))"

definition remove_user :: "int \<Rightarrow> string \<Rightarrow> string \<Rightarrow> string \<Rightarrow> server \<Rightarrow> server \<times> emission list" where
  "remove_user t s rid uid \<sigma> =
     (case session \<sigma> s of None \<Rightarrow> (\<sigma>, [])
      | Some d \<Rightarrow>
          let rm = getOrCreateRoom t rid (rooms \<sigma>) in
          (put_room rid rm \<sigma>,
           if hostId rm = Some (userId d) then [(ToOthers uid, EvForceLeave)] else []))"

definition reaction_send ::
  "int \<Rightarrow> string \<Rightarrow> string \<Rightarrow> string \<Rightarrow> reaction \<Rightarrow> server \<Rightarrow> server \<times> emission list" where
  "reaction_send t rnd s rid r \<sigma> =
     (case session \<sigma> s of None \<Rightarrow> (\<sigma>, [])
      | Some d \<Rightarrow> (\<sigma>, [(ToOthers rid, EvReaction (r\<lparr>id_r := make_id (userId d) t rnd\<rparr>))]))"

text \<open>\<open>disconnect\<close>. socket.io has already taken the socket out of its rooms when the
  handler runs. \<open>failover\<close> is the body of \<open>if (room.hostId === userId)\<close>: the successor
  is \<open>remainingMembers[0].id\<close>, the first value of the map in insertion order.\<close>

definition failover :: "room \<Rightarrow> room" where
  "failover rm =
     (let rm1 = rm\<lparr>hostId := (case member_values rm of [] \<Rightarrow> None | m # _ \<Rightarrow> Some (id_m m))\<rparr>
      in case hostId rm1 of
           None \<Rightarrow> rm1
         | Some h \<Rightarrow>
             if h = [] then rm1
             else (case map_of (members rm1) h of
                     None \<Rightarrow> rm1
                   | Some nh \<Rightarrow>
                       rm1\<lparr>members := AList.update h (nh\<lparr>isModerator := True\<rparr>) (members rm1),
                           allowedUsers := insert h (allowedUsers rm1)\<rparr>))"

definition disconnect :: "string \<Rightarrow> server \<Rightarrow> server \<times> emission list" where
  "disconnect s \<sigma> =
     (let \<sigma>0 = \<sigma>\<lparr>sockets := AList.delete s (sockets \<sigma>)\<rparr> in
      case session \<sigma> s of None \<Rightarrow> (\<sigma>0, [])
      | Some d \<Rightarrow>
          (case rooms \<sigma> (roomId d) of None \<Rightarrow> (\<sigma>0, [])
           | Some rm \<Rightarrow>
               let u = userId d; rid = roomId d;
                   rm1 = rm\<lparr>members := AList.delete u (members rm),
                           allowedUsers := allowedUsers rm - {u},
                           handRaised := handRaised rm - {u}\<rparr>;
                   rm2 = (if hostId rm1 = Some u then failover rm1 else rm1);
                   out = (if hostId rm1 = Some u
                          then (if truthy (hostId rm2)
                                then [(ToRoom rid, EvRoomState (locked rm2) (hostId rm2)
                                                     (member_values rm2) None)]
                                else [(ToRoom rid, EvWhiteboardDisable)])
                          else [])
               in if members rm2 \<noteq> []
                  then (put_room rid rm2 \<sigma>0, out @ [(ToRoom rid, EvRoomMembers (member_values rm2))])
                  else (\<sigma>0\<lparr>rooms := (rooms \<sigma>0)(rid := None)\<rparr>, out)))"

text \<open>The cleanup timer: every room idle for more than \<open>ROOM_TIMEOUT\<close> (30 minutes) is
  deleted; a \<open>lastActivity\<close> of \<open>0\<close> is falsy.\<close>

definition ROOM_TIMEOUT :: int where
  "ROOM_TIMEOUT = 30 * 60 * 1000"

definition sweep :: "int \<Rightarrow> server \<Rightarrow> server" where
  "sweep t \<sigma> = \<sigma>\<lparr>rooms := (\<lambda>rid. case rooms \<sigma> rid of None \<Rightarrow> None
       | Some rm \<Rightarrow> if lastActivity rm \<noteq> 0 \<and> t - lastActivity rm > ROOM_TIMEOUT then None
                    else Some rm)\<rparr>"

subsection \<open>The event loop\<close>

fun handle :: "int \<Rightarrow> string \<Rightarrow> string \<Rightarrow> event \<Rightarrow> server \<Rightarrow> server \<times> emission list" where
  "handle t rnd s (JoinRoom rid uid uname pw) \<sigma> = join_room t s rid uid uname pw \<sigma>"
| "handle t rnd s (RoomLock rid pw) \<sigma> = room_lock t s rid pw \<sigma>"
| "handle t rnd s (RoomUnlock rid) \<sigma> = room_unlock t s rid \<sigma>"
| "handle t rnd s (ChatSend rid msg) \<sigma> = chat_send t rnd s rid msg \<sigma>"
| "handle t rnd s (WhiteboardEnable rid) \<sigma> = whiteboard_enable t s rid \<sigma>"
| "handle t rnd s (WhiteboardDisable rid) \<sigma> = whiteboard_disable t s rid \<sigma>"
| "handle t rnd s (WhiteboardDrawing rid dr) \<sigma> = whiteboard_drawing t rnd s rid dr \<sigma>"
| "handle t rnd s (WhiteboardBackground rid bg) \<sigma> = whiteboard_background t s rid bg \<sigma>"
| "handle t rnd s (WhiteboardClear rid) \<sigma> = whiteboard_clear t s rid \<sigma>"
| "handle t rnd s (AllowUser rid uid allow) \<sigma> = allow_user t s rid uid allow \<sigma>"
| "handle t rnd s (MakeHost rid uid) \<sigma> = make_host t s rid uid \<sigma>"
| "handle t rnd s (HandRaise rid) \<sigma> = hand_raise t s rid \<sigma>"
| "handle t rnd s (HandLower rid) \<sigma> = hand_lower t s rid \<sigma>"
| "handle t rnd s (HandLowerAll rid) \<sigma> = hand_lower_all t s rid \<sigma>"
| "handle t rnd s (MuteUser rid uid) \<sigma> = mute_user t s rid uid \<sigma>"
| "handle t rnd s (RemoveUser rid uid) \<sigma> = remove_user t s rid uid \<sigma>"
| "handle t rnd s (ReactionSend rid r) \<sigma> = reaction_send t rnd s rid r \<sigma>"
| "handle t rnd s Disconnect \<sigma> = disconnect s \<sigma>"

text \<open>What the process reacts to: a new connection (with a fresh socket id), an event of
  a connected socket, a tick of the cleanup timer. Each comes with the clock value and
  the random suffix its handler run reads.\<close>

datatype action = Connect string | Client string event | Sweep

fun step :: "int \<Rightarrow> string \<Rightarrow> action \<Rightarrow> server \<Rightarrow> server \<times> emission list" where
  "step t rnd (Connect s) \<sigma> =
     (if map_of (sockets \<sigma>) s = None
      then (\<sigma>\<lparr>sockets := sockets \<sigma> @ [(s, \<lparr>data = None, joined = {s}\<rparr>)]\<rparr>, [])
      else (\<sigma>, []))"
| "step t rnd (Client s e) \<sigma> =
     (if map_of (sockets \<sigma>) s = None then (\<sigma>, []) else handle t rnd s e \<sigma>)"
| "step t rnd Sweep \<sigma> = (sweep t \<sigma>, [])"

definition init :: server where
  "init = \<lparr>rooms = Map.empty, sockets = []\<rparr>"

fun run :: "(int \<times> string \<times> action) list \<Rightarrow> server \<Rightarrow> server" where
  "run [] \<sigma> = \<sigma>"
| "run ((t, rnd, a) # as) \<sigma> = run as (fst (step t rnd a \<sigma>))"

text \<open>Delivery by socket.io: who receives an emission made by socket \<open>s\<close>, given the
  connection table at that moment.\<close>

definition in_room :: "string \<Rightarrow> string \<times> conn \<Rightarrow> bool" where
  "in_room r c = (r \<in> joined (snd c))"

fun recipients :: "server \<Rightarrow> string \<Rightarrow> audience \<Rightarrow> string list" where
  "recipients \<sigma> s ToSender = [s]"
| "recipients \<sigma> s (ToRoom r) = map fst (filter (in_room r) (sockets \<sigma>))"
| "recipients \<sigma> s (ToOthers r) = filter (\<lambda>k. k \<noteq> s) (map fst (filter (in_room r) (sockets \<sigma>)))"

section \<open>The reduced relay (server/server.js)\<close>

text \<open>\<open>server.js\<close> is the same relay without whiteboard state, permissions and hands;
  its \<open>room:lock\<close> handler is the one above word for word. Its \<open>chat:send\<close> validates
  the message first and relays it as received, without assigning an id.\<close>

definition chat_send_js ::
  "int \<Rightarrow> string \<Rightarrow> string \<Rightarrow> message option \<Rightarrow> server \<Rightarrow> server \<times> emission list" where
  "chat_send_js t s rid msg \<sigma> =
     (case session \<sigma> s of None \<Rightarrow> (\<sigma>, [])
      | Some d \<Rightarrow>
          (case msg of
             None \<Rightarrow> (\<sigma>, [(ToSender, EvError ''Invalid message format'')])
           | Some m \<Rightarrow>
               if throttle_open t d
               then (\<sigma>\<lparr>sockets := upd_conn s (\<lambda>c. c\<lparr>data := Some (d\<lparr>lastChatTime := Some t\<rparr>)\<rparr>)
                                     (sockets \<sigma>)\<rparr>,
                     [(ToRoom rid, EvChatReceive m None)])
               else (\<sigma>, [(ToSender, EvError ''Message rate limit exceeded'')])))"

section \<open>Invariants of a room\<close>

text \<open>Well-formedness of the member map: keys are distinct, non-empty and equal to the
  \<open>id\<close> stored in the member object, and a member flagged \<open>isModerator\<close> is the one
  named by \<open>hostId\<close>.\<close>

definition room_ok :: "room \<Rightarrow> bool" where
  "room_ok rm \<longleftrightarrow>
     distinct (map fst (members rm)) \<and>
     list_all (\<lambda>(k, m). id_m m = k \<and> k \<noteq> [] \<and> (isModerator m \<longrightarrow> hostId rm = Some k))
       (members rm)"

text \<open>The number of members whose \<open>isModerator\<close> flag is set.\<close>

definition host_count :: "room \<Rightarrow> nat" where
  "host_count rm = length (filter isModerator (member_values rm))"

text \<open>\<open>hostId\<close> is \<open>null\<close> exactly when there is no member, and otherwise names a key of
  the member map.\<close>

definition host_present :: "room \<Rightarrow> bool" where
  "host_present rm =
     (case hostId rm of None \<Rightarrow> members rm = [] | Some h \<Rightarrow> h \<in> set (map fst (members rm)))"

text \<open>Every raised hand belongs to a member.\<close>

definition hands_ok :: "room \<Rightarrow> bool" where
  "hands_ok rm \<longleftrightarrow> handRaised rm \<subseteq> set (map fst (members rm))"

text \<open>A property of every room in the registry.\<close>

definition regs :: "(room \<Rightarrow> bool) \<Rightarrow> server \<Rightarrow> bool" where
  "regs P \<sigma> \<longleftrightarrow> (\<forall>rid rm. rooms \<sigma> rid = Some rm \<longrightarrow> P rm)"

text \<open>Side conditions on a run: every \<open>host:make-host\<close> names a member of the room it
  addresses, and every \<open>hand:raise\<close> comes from a connection whose user id is a member
  of the room it addresses.\<close>

fun target_present :: "action \<Rightarrow> server \<Rightarrow> bool" where
  "target_present (Client s (MakeHost rid uid)) \<sigma> =
     (case rooms \<sigma> rid of None \<Rightarrow> True | Some rm \<Rightarrow> uid \<in> set (map fst (members rm)))"
| "target_present a \<sigma> = True"

fun targets_present :: "(int \<times> string \<times> action) list \<Rightarrow> server \<Rightarrow> bool" where
  "targets_present [] \<sigma> = True"
| "targets_present ((t, rnd, a) # as) \<sigma> =
     (target_present a \<sigma> \<and> targets_present as (fst (step t rnd a \<sigma>)))"

fun raiser_present :: "action \<Rightarrow> server \<Rightarrow> bool" where
  "raiser_present (Client s (HandRaise rid)) \<sigma> =
     (case session \<sigma> s of None \<Rightarrow> True
      | Some d \<Rightarrow> (case rooms \<sigma> rid of None \<Rightarrow> False
                   | Some rm \<Rightarrow> userId d \<in> set (map fst (members rm))))"
| "raiser_present a \<sigma> = True"

section \<open>Observations\<close>

text \<open>The drawing log of a room, empty when the room does not exist.\<close>

definition drawing_log :: "server \<Rightarrow> string \<Rightarrow> drawing list" where
  "drawing_log \<sigma> rid = (case rooms \<sigma> rid of None \<Rightarrow> [] | Some rm \<Rightarrow> whiteboardDrawings rm)"

text \<open>The keys of a room's member map in insertion order, empty when the room does not
  exist.\<close>

definition member_ids :: "server \<Rightarrow> string \<Rightarrow> string list" where
  "member_ids \<sigma> rid = (case rooms \<sigma> rid of None \<Rightarrow> [] | Some rm \<Rightarrow> map fst (members rm))"

text \<open>The draw permission of a connection in a room: its user id is in the room's
  \<open>allowedUsers\<close>, the set that the \<open>whiteboard:*\<close> handlers test.\<close>

definition may_draw :: "server \<Rightarrow> string \<Rightarrow> string \<Rightarrow> bool" where
  "may_draw \<sigma> s rid =
     (case session \<sigma> s of None \<Rightarrow> False
      | Some d \<Rightarrow> (case rooms \<sigma> rid of None \<Rightarrow> False | Some rm \<Rightarrow> userId d \<in> allowedUsers rm))"

text \<open>The events after which \<open>socket.data\<close> of the sending connection may differ:
  \<open>join-room\<close> replaces the object, \<open>chat:send\<close> stamps it, \<open>disconnect\<close> ends it.\<close>

fun rebinds :: "event \<Rightarrow> bool" where
  "rebinds (JoinRoom rid uid uname pw) = True"
| "rebinds (ChatSend rid msg) = True"
| "rebinds Disconnect = True"
| "rebinds e = False"

text \<open>The room id carried by an event.\<close>

fun room_of :: "event \<Rightarrow> string" where
  "room_of (JoinRoom rid uid uname pw) = rid"
| "room_of (RoomLock rid pw) = rid"
| "room_of (RoomUnlock rid) = rid"
| "room_of (ChatSend rid msg) = rid"
| "room_of (WhiteboardEnable rid) = rid"
| "room_of (WhiteboardDisable rid) = rid"
| "room_of (WhiteboardDrawing rid dr) = rid"
| "room_of (WhiteboardBackground rid bg) = rid"
| "room_of (WhiteboardClear rid) = rid"
| "room_of (AllowUser rid uid allow) = rid"
| "room_of (MakeHost rid uid) = rid"
| "room_of (HandRaise rid) = rid"
| "room_of (HandLower rid) = rid"
| "room_of (HandLowerAll rid) = rid"
| "room_of (MuteUser rid uid) = rid"
| "room_of (RemoveUser rid uid) = rid"
| "room_of (ReactionSend rid r) = rid"
| "room_of Disconnect = []"

text \<open>The checks a handler makes before it mutates or broadcasts, as the source writes
  them: the host test \<open>room.hostId === socket.data.userId\<close>, the permission test
  \<open>room.allowedUsers.has(socket.data.userId)\<close>, the chat throttle, the validity and
  password tests of \<open>join-room\<close>. Hand raise and lower, reactions and disconnect have
  none beyond the session guard.\<close>

definition is_host :: "int \<Rightarrow> string \<Rightarrow> sockdata \<Rightarrow> server \<Rightarrow> bool" where
  "is_host t rid d \<sigma> = (hostId (getOrCreateRoom t rid (rooms \<sigma>)) = Some (userId d))"

definition in_allowed :: "int \<Rightarrow> string \<Rightarrow> sockdata \<Rightarrow> server \<Rightarrow> bool" where
  "in_allowed t rid d \<sigma> = (userId d \<in> allowedUsers (getOrCreateRoom t rid (rooms \<sigma>)))"

fun checks :: "int \<Rightarrow> sockdata \<Rightarrow> event \<Rightarrow> server \<Rightarrow> bool" where
  "checks t d (RoomLock rid pw) \<sigma> = (is_host t rid d \<sigma> \<and> pw \<noteq> [])"
| "checks t d (RoomUnlock rid) \<sigma> = is_host t rid d \<sigma>"
| "checks t d (ChatSend rid msg) \<sigma> = (throttle_open t d \<and> msg \<noteq> None)"
| "checks t d (WhiteboardEnable rid) \<sigma> = is_host t rid d \<sigma>"
| "checks t d (WhiteboardDisable rid) \<sigma> = is_host t rid d \<sigma>"
| "checks t d (WhiteboardDrawing rid dr) \<sigma> = in_allowed t rid d \<sigma>"
| "checks t d (WhiteboardBackground rid bg) \<sigma> = in_allowed t rid d \<sigma>"
| "checks t d (WhiteboardClear rid) \<sigma> = in_allowed t rid d \<sigma>"
| "checks t d (AllowUser rid uid allow) \<sigma> = is_host t rid d \<sigma>"
| "checks t d (MakeHost rid uid) \<sigma> = is_host t rid d \<sigma>"
| "checks t d (HandLowerAll rid) \<sigma> = is_host t rid d \<sigma>"
| "checks t d (MuteUser rid uid) \<sigma> = is_host t rid d \<sigma>"
| "checks t d (RemoveUser rid uid) \<sigma> = is_host t rid d \<sigma>"
| "checks t d e \<sigma> = True"

fun precondition :: "int \<Rightarrow> string \<Rightarrow> event \<Rightarrow> server \<Rightarrow> bool" where
  "precondition t s (JoinRoom rid uid uname pw) \<sigma> =
     (rid \<noteq> [] \<and> uid \<noteq> [] \<and>
      \<not> (let rm = getOrCreateRoom t rid (rooms \<sigma>)
         in locked rm \<and> truthy (hostId rm) \<and> hostId rm \<noteq> Some uid \<and> strict_neq (password rm) pw))"
| "precondition t s Disconnect \<sigma> = True"
| "precondition t s e \<sigma> = (case session \<sigma> s of None \<Rightarrow> False | Some d \<Rightarrow> checks t d e \<sigma>)"

text \<open>The error signals, and the events whose handler sends one.\<close>

fun is_error :: "payload \<Rightarrow> bool" where
  "is_error (EvError msg) = True"
| "is_error EvPasswordRequired = True"
| "is_error p = False"

fun reports :: "event \<Rightarrow> bool" where
  "reports (JoinRoom rid uid uname pw) = True"
| "reports (ChatSend rid msg) = True"
| "reports e = False"

text \<open>The only trace of a call of \<open>getOrCreateRoom\<close>: the room exists afterwards and its
  \<open>lastActivity\<close> is the clock value.\<close>

definition touch :: "int \<Rightarrow> string \<Rightarrow> server \<Rightarrow> server" where
  "touch t rid \<sigma> = put_room rid (getOrCreateRoom t rid (rooms \<sigma>)) \<sigma>"

section \<open>Scenarios\<close>

text \<open>A meeting \<open>r\<close>: \<open>H\<close> connects and joins first and becomes host, then \<open>A\<close> joins.\<close>

definition meeting :: server where
  "meeting = run [(1000, ''k3x9'', Connect ''s1''),
                  (1000, ''k3x9'', Client ''s1'' (JoinRoom ''r'' ''H'' ''Hana'' None)),
                  (2000, ''k3x9'', Connect ''s2''),
                  (2000, ''k3x9'', Client ''s2'' (JoinRoom ''r'' ''A'' ''Ann'' None))] init"

text \<open>The host of the meeting hands over to the member \<open>A\<close>.\<close>

definition handover :: "(int \<times> string \<times> action) list" where
  "handover = [(1000, ''k3x9'', Connect ''s1''),
     (1000, ''k3x9'', Client ''s1'' (JoinRoom ''r'' ''H'' ''Hana'' None)),
     (2000, ''k3x9'', Connect ''s2''),
     (2000, ''k3x9'', Client ''s2'' (JoinRoom ''r'' ''A'' ''Ann'' None)),
     (3000, ''k3x9'', Client ''s1'' (MakeHost ''r'' ''A''))]"

definition handover_room :: room where
  "handover_room = \<lparr>locked = False, password = None, hostId = Some ''A'',
     members = [(''H'', \<lparr>id_m = ''H'', name_m = ''Hana'', isModerator = False, canDraw = True, handRaised_m = False\<rparr>),
                (''A'', \<lparr>id_m = ''A'', name_m = ''Ann'', isModerator = True, canDraw = False, handRaised_m = False\<rparr>)],
     whiteboardDrawings = [], whiteboardBackground = None, allowedUsers = {''A'', ''H''},
     lastActivity = 3000, handRaised = {}\<rparr>"

text \<open>The host hands over to \<open>A\<close>, and \<open>A\<close> hands the role back to \<open>H\<close>.\<close>

definition handback :: "(int \<times> string \<times> action) list" where
  "handback = [(1000, ''k3x9'', Connect ''s1''),
     (1000, ''k3x9'', Client ''s1'' (JoinRoom ''r'' ''H'' ''Hana'' None)),
     (2000, ''k3x9'', Connect ''s2''),
     (2000, ''k3x9'', Client ''s2'' (JoinRoom ''r'' ''A'' ''Ann'' None)),
     (3000, ''k3x9'', Client ''s1'' (MakeHost ''r'' ''A'')),
     (3500, ''k3x9'', Client ''s2'' (MakeHost ''r'' ''H''))]"

text \<open>The host of a one-member room names a user who never joined.\<close>

definition absent_target :: "(int \<times> string \<times> action) list" where
  "absent_target = [(1000, ''k3x9'', Connect ''s1''),
     (1000, ''k3x9'', Client ''s1'' (JoinRoom ''r'' ''H'' ''Hana'' None)),
     (3000, ''k3x9'', Client ''s1'' (MakeHost ''r'' ''X''))]"

text \<open>The user \<open>A\<close> is connected twice (sockets \<open>s2\<close> and \<open>s3\<close>, both joined as \<open>A\<close>);
  the first connection drops, which deletes \<open>A\<close> from the member map while \<open>s3\<close> stays
  connected with its session.\<close>

definition two_tabs :: "(int \<times> string \<times> action) list" where
  "two_tabs = [(1000, ''k3x9'', Connect ''s1''),
     (1000, ''k3x9'', Client ''s1'' (JoinRoom ''r'' ''H'' ''Hana'' None)),
     (2000, ''k3x9'', Connect ''s2''),
     (2000, ''k3x9'', Client ''s2'' (JoinRoom ''r'' ''A'' ''Ann'' None)),
     (3000, ''k3x9'', Connect ''s3''),
     (3000, ''k3x9'', Client ''s3'' (JoinRoom ''r'' ''A'' ''Ann'' None)),
     (4000, ''k3x9'', Client ''s2'' Disconnect)]"

text \<open>Three users join the room \<open>r\<close> in the order \<open>H\<close>, \<open>A\<close>, \<open>B\<close>.\<close>

definition trio_acts :: "(int \<times> string \<times> action) list" where
  "trio_acts = [(1000, ''k3x9'', Connect ''s1''),
               (1000, ''k3x9'', Client ''s1'' (JoinRoom ''r'' ''H'' ''Hana'' None)),
               (2000, ''k3x9'', Connect ''s2''),
               (2000, ''k3x9'', Client ''s2'' (JoinRoom ''r'' ''A'' ''Ann'' None)),
               (3000, ''k3x9'', Connect ''s3''),
               (3000, ''k3x9'', Client ''s3'' (JoinRoom ''r'' ''B'' ''Bob'' None))]"

definition trio_room :: room where
  "trio_room = \<lparr>locked = False, password = None, hostId = Some ''H'',
     members = [(''H'', \<lparr>id_m = ''H'', name_m = ''Hana'', isModerator = True, canDraw = True, handRaised_m = False\<rparr>),
                (''A'', \<lparr>id_m = ''A'', name_m = ''Ann'', isModerator = False, canDraw = False, handRaised_m = False\<rparr>),
                (''B'', \<lparr>id_m = ''B'', name_m = ''Bob'', isModerator = False, canDraw = False, handRaised_m = False\<rparr>)],
     whiteboardDrawings = [], whiteboardBackground = None, allowedUsers = {''H''},
     lastActivity = 3000, handRaised = {}\<rparr>"

text \<open>The meeting with a third connection that has not joined yet.\<close>

definition lobby :: server where
  "lobby = run [(2500, ''k3x9'', Connect ''s3'')] meeting"

text \<open>One user joins and sends a chat message at clock value 5000; in the second run the
  connection sends \<open>join-room\<close> again 100 ms later.\<close>

definition chatting :: "(int \<times> string \<times> action) list" where
  "chatting = [(1000, ''k3x9'', Connect ''s1''),
               (1000, ''k3x9'', Client ''s1'' (JoinRoom ''r'' ''H'' ''Hana'' None)),
               (5000, ''k3x9'', Client ''s1'' (ChatSend ''r'' (Some \<lparr>id_msg = ''c1'', body_msg = ''hello''\<rparr>)))]"

definition rejoining :: "(int \<times> string \<times> action) list" where
  "rejoining = [(1000, ''k3x9'', Connect ''s1''),
                (1000, ''k3x9'', Client ''s1'' (JoinRoom ''r'' ''H'' ''Hana'' None)),
                (5000, ''k3x9'', Client ''s1'' (ChatSend ''r'' (Some \<lparr>id_msg = ''c1'', body_msg = ''hello''\<rparr>))),
                (5100, ''k3x9'', Client ''s1'' (JoinRoom ''r'' ''H'' ''Hana'' None))]"

definition solo :: "(int \<times> string \<times> action) list" where
  "solo = [(1000, ''k3x9'', Connect ''s1''),
           (1000, ''k3x9'', Client ''s1'' (JoinRoom ''r'' ''H'' ''Hana'' None))]"

text \<open>The host of the meeting sends two different drawings in the same millisecond, and
  \<open>Math.random\<close> yields the same nine digits both times.\<close>

definition same_tick :: "(int \<times> string \<times> action) list" where
  "same_tick = [(3000, ''k3x9'', Client ''s1'' (WhiteboardDrawing ''r'' \<lparr>id_d = ''c1'', body_d = ''line''\<rparr>)),
                (3000, ''k3x9'', Client ''s1'' (WhiteboardDrawing ''r'' \<lparr>id_d = ''c2'', body_d = ''circle''\<rparr>))]"

section \<open>Properties\<close>

subsection \<open>Well-formed member maps\<close>

lemma set_update_distinct:
  "distinct (map fst al) \<Longrightarrow> set (AList.update k v al) = insert (k, v) {p \<in> set al. fst p \<noteq> k}"
  by (induction al) (auto simp: image_iff)

lemma set_delete: "set (AList.delete k al) = {p \<in> set al. fst p \<noteq> k}"
  by (auto simp: AList.delete_eq)

lemma room_ok_alt:
  "room_ok rm \<longleftrightarrow> distinct (map fst (members rm)) \<and>
     (\<forall>p \<in> set (members rm). id_m (snd p) = fst p) \<and>
     (\<forall>p \<in> set (members rm). fst p \<noteq> []) \<and>
     (\<forall>p \<in> set (members rm). isModerator (snd p) \<longrightarrow> hostId rm = Some (fst p))"
  unfolding room_ok_def list_all_iff by auto

lemma room_ok_new [simp]: "room_ok (new_room t)"
  by (simp add: room_ok_def new_room_def)

lemma room_ok_frame [simp]:
  "room_ok (rm\<lparr>locked := a\<rparr>) = room_ok rm"
  "room_ok (rm\<lparr>password := b\<rparr>) = room_ok rm"
  "room_ok (rm\<lparr>whiteboardDrawings := c\<rparr>) = room_ok rm"
  "room_ok (rm\<lparr>whiteboardBackground := d\<rparr>) = room_ok rm"
  "room_ok (rm\<lparr>allowedUsers := e\<rparr>) = room_ok rm"
  "room_ok (rm\<lparr>lastActivity := f\<rparr>) = room_ok rm"
  "room_ok (rm\<lparr>handRaised := g\<rparr>) = room_ok rm"
  by (simp_all add: room_ok_def)

lemma regs_getOrCreate: "regs room_ok \<sigma> \<Longrightarrow> room_ok (getOrCreateRoom t rid (rooms \<sigma>))"
  by (auto simp: regs_def getOrCreateRoom_def split: option.splits)

lemma regs_put: "regs P \<sigma> \<Longrightarrow> P rm \<Longrightarrow> regs P (put_room rid rm \<sigma>)"
  by (auto simp: regs_def put_room_def)

lemma regs_sockets [simp]: "regs P (\<sigma>\<lparr>sockets := x\<rparr>) = regs P \<sigma>"
  by (simp add: regs_def)

lemma room_ok_with_member:
  "room_ok rm \<Longrightarrow> (\<And>m. id_m (f m) = id_m m) \<Longrightarrow> (\<And>m. isModerator (f m) \<Longrightarrow> isModerator m \<or> hostId rm = Some k)
   \<Longrightarrow> room_ok (with_member k f rm)"
  by (auto simp: room_ok_alt with_member_def set_update_distinct distinct_update split: option.splits dest!: map_of_SomeD) force

lemma room_ok_lower_all:
  "room_ok rm \<Longrightarrow> room_ok (rm\<lparr>members := map (\<lambda>(k, m). (k, m\<lparr>handRaised_m := False\<rparr>)) (members rm)\<rparr>)"
  by (auto simp: room_ok_alt comp_def case_prod_beta)

lemma room_ok_make_host:
  "room_ok rm \<Longrightarrow> hostId rm = Some h \<Longrightarrow>
   room_ok (with_member uid (\<lambda>m. m\<lparr>isModerator := True\<rparr>) ((with_member h (\<lambda>m. m\<lparr>isModerator := False\<rparr>) rm)\<lparr>hostId := Some uid\<rparr>))"
  by (auto simp: room_ok_alt with_member_def set_update_distinct distinct_update split: option.splits dest!: map_of_SomeD)

lemma room_ok_join:
  "room_ok rm \<Longrightarrow> uid \<noteq> [] \<Longrightarrow> truthy (hostId rm) \<Longrightarrow>
   room_ok (rm\<lparr>members := AList.update uid \<lparr>id_m = uid, name_m = n, isModerator = (hostId rm = Some uid), canDraw = c, handRaised_m = r\<rparr> (members rm)\<rparr>)"
  by (auto simp: room_ok_alt set_update_distinct distinct_update)

lemma room_ok_join_first:
  "room_ok rm \<Longrightarrow> uid \<noteq> [] \<Longrightarrow> \<not> truthy (hostId rm) \<Longrightarrow>
   room_ok (rm\<lparr>hostId := Some uid, members := AList.update uid \<lparr>id_m = uid, name_m = n, isModerator = True, canDraw = c, handRaised_m = r\<rparr> (members rm)\<rparr>)"
  by (auto simp: room_ok_alt set_update_distinct distinct_update truthy_def split: option.splits) force

lemma room_ok_delete:
  "room_ok rm \<Longrightarrow> room_ok (rm\<lparr>members := AList.delete u (members rm)\<rparr>)"
  by (auto simp: room_ok_alt set_delete distinct_delete)

lemma room_ok_failover:
  assumes "room_ok rm" "\<forall>p \<in> set (members rm). \<not> isModerator (snd p)"
  shows "room_ok (failover rm)"
proof (cases "members rm")
  case Nil
  then show ?thesis using assms by (simp add: failover_def member_values_def room_ok_alt Let_def)
next
  case (Cons p ps)
  then show ?thesis using assms
    by (auto simp: failover_def member_values_def room_ok_alt Let_def set_update_distinct distinct_update
          split: option.splits dest!: map_of_SomeD)
qed

lemma room_ok_host_delete:
  "room_ok rm \<Longrightarrow> hostId rm = Some u \<Longrightarrow> \<forall>p \<in> set (AList.delete u (members rm)). \<not> isModerator (snd p)"
  by (auto simp: room_ok_alt set_delete)

lemma handle_room_ok_frame:
  assumes "regs room_ok \<sigma>"
  shows "regs room_ok (fst (room_lock t s rid pw \<sigma>))"
    "regs room_ok (fst (room_unlock t s rid \<sigma>))"
    "regs room_ok (fst (chat_send t rnd s rid msg \<sigma>))"
    "regs room_ok (fst (whiteboard_enable t s rid \<sigma>))"
    "regs room_ok (fst (whiteboard_disable t s rid \<sigma>))"
    "regs room_ok (fst (whiteboard_drawing t rnd s rid dr \<sigma>))"
    "regs room_ok (fst (whiteboard_background t s rid bg \<sigma>))"
    "regs room_ok (fst (whiteboard_clear t s rid \<sigma>))"
    "regs room_ok (fst (mute_user t s rid uid \<sigma>))"
    "regs room_ok (fst (remove_user t s rid uid \<sigma>))"
    "regs room_ok (fst (reaction_send t rnd s rid r \<sigma>))"
  using assms regs_getOrCreate[OF assms, of t rid]
  by (auto simp: room_lock_def room_unlock_def chat_send_def whiteboard_enable_def whiteboard_disable_def
      whiteboard_drawing_def whiteboard_background_def whiteboard_clear_def mute_user_def remove_user_def
      reaction_send_def Let_def split: option.splits intro!: regs_put)

lemma handle_room_ok_members:
  assumes "regs room_ok \<sigma>"
  shows "regs room_ok (fst (allow_user t s rid uid allow \<sigma>))"
    "regs room_ok (fst (make_host t s rid uid \<sigma>))"
    "regs room_ok (fst (hand_raise t s rid \<sigma>))"
    "regs room_ok (fst (hand_lower t s rid \<sigma>))"
  using assms regs_getOrCreate[OF assms, of t rid]
  by (auto simp: allow_user_def make_host_def hand_raise_def hand_lower_def
      Let_def split: option.splits intro!: regs_put room_ok_with_member room_ok_make_host)

lemma lower_all_room_ok:
  assumes "regs room_ok \<sigma>"
  shows "regs room_ok (fst (hand_lower_all t s rid \<sigma>))"
  using assms regs_getOrCreate[OF assms, of t rid]
  by (auto simp: hand_lower_all_def Let_def room_ok_alt comp_def case_prod_beta
      split: option.splits intro!: regs_put)

lemma join_room_ok:
  assumes "regs room_ok \<sigma>"
  shows "regs room_ok (fst (join_room t s rid uid uname pw \<sigma>))"
proof -
  have "room_ok (getOrCreateRoom t rid (rooms \<sigma>))"
    using assms by (rule regs_getOrCreate)
  then show ?thesis using assms
    by (auto simp: join_room_def Let_def room_ok_alt set_update_distinct distinct_update truthy_def
        split: option.splits intro!: regs_put) force+
qed

lemma regs_remove: "regs P \<sigma> \<Longrightarrow> regs P (\<sigma>\<lparr>rooms := (rooms \<sigma>)(rid := None)\<rparr>)"
  by (auto simp: regs_def)

lemma disconnect_room_ok:
  assumes "regs room_ok \<sigma>"
  shows "regs room_ok (fst (disconnect s \<sigma>))"
proof (cases "session \<sigma> s")
  case None
  then show ?thesis using assms by (simp add: disconnect_def)
next
  case (Some d)
  show ?thesis
  proof (cases "rooms \<sigma> (roomId d)")
    case None
    then show ?thesis using assms Some by (simp add: disconnect_def)
  next
    case (Some rm)
    let ?rm1 = "rm\<lparr>members := AList.delete (userId d) (members rm),
                    allowedUsers := allowedUsers rm - {userId d},
                    handRaised := handRaised rm - {userId d}\<rparr>"
    from assms Some have ok: "room_ok rm" by (auto simp: regs_def)
    then have ok1: "room_ok ?rm1" using room_ok_delete[OF ok, of "userId d"] by simp
    have ok2: "room_ok (if hostId ?rm1 = Some (userId d) then failover ?rm1 else ?rm1)"
    proof (cases "hostId rm = Some (userId d)")
      case True
      then have "\<forall>p \<in> set (members ?rm1). \<not> isModerator (snd p)"
        using room_ok_host_delete[OF ok] by simp
      with ok1 True show ?thesis by (simp add: room_ok_failover)
    next
      case False
      with ok1 show ?thesis by simp
    qed
    from ok2 assms Some \<open>session \<sigma> s = Some d\<close> show ?thesis
      by (auto simp: disconnect_def Let_def regs_def put_room_def)
  qed
qed

lemma sweep_regs: "regs P \<sigma> \<Longrightarrow> regs P (sweep t \<sigma>)"
  by (auto simp: regs_def sweep_def split: option.splits if_splits)

lemma step_room_ok: "regs room_ok \<sigma> \<Longrightarrow> regs room_ok (fst (step t rnd a \<sigma>))"
proof (cases a)
  case (Connect s)
  assume "regs room_ok \<sigma>"
  then show ?thesis using Connect by simp
next
  case (Client s e)
  assume "regs room_ok \<sigma>"
  then show ?thesis using Client
    by (cases e) (simp_all add: handle_room_ok_frame handle_room_ok_members lower_all_room_ok
        join_room_ok disconnect_room_ok)
next
  case Sweep
  assume "regs room_ok \<sigma>"
  then show ?thesis using Sweep by (simp add: sweep_regs)
qed

lemma run_room_ok: "regs room_ok \<sigma> \<Longrightarrow> regs room_ok (run acts \<sigma>)"
  by (induction acts arbitrary: \<sigma>) (auto simp: step_room_ok)

lemma init_regs: "regs P init"
  by (simp add: regs_def init_def)


subsection \<open>Evaluation of the scenarios\<close>

lemmas eval_defs = init_def join_room_def getOrCreateRoom_def new_room_def put_room_def
      session_def upd_conn_def truthy_def strict_neq_def member_values_def Let_def in_room_def

lemma meeting_sockets: "sockets meeting =
   [(''s1'', \<lparr>data = Some \<lparr>userId = ''H'', roomId = ''r'', userName = ''Hana'', lastChatTime = None\<rparr>, joined = {''r'', ''s1''}\<rparr>),
    (''s2'', \<lparr>data = Some \<lparr>userId = ''A'', roomId = ''r'', userName = ''Ann'', lastChatTime = None\<rparr>, joined = {''r'', ''s2''}\<rparr>)]"
  by (simp add: meeting_def eval_defs)

lemma meeting_room: "rooms meeting ''r'' = Some \<lparr>locked = False, password = None, hostId = Some ''H'',
     members = [(''H'', \<lparr>id_m = ''H'', name_m = ''Hana'', isModerator = True, canDraw = True, handRaised_m = False\<rparr>),
                (''A'', \<lparr>id_m = ''A'', name_m = ''Ann'', isModerator = False, canDraw = False, handRaised_m = False\<rparr>)],
     whiteboardDrawings = [], whiteboardBackground = None, allowedUsers = {''H''},
     lastActivity = 2000, handRaised = {}\<rparr>"
  by (simp add: meeting_def eval_defs)


lemma meeting_rooms: "rooms meeting = [''r'' \<mapsto> \<lparr>locked = False, password = None, hostId = Some ''H'',
     members = [(''H'', \<lparr>id_m = ''H'', name_m = ''Hana'', isModerator = True, canDraw = True, handRaised_m = False\<rparr>),
                (''A'', \<lparr>id_m = ''A'', name_m = ''Ann'', isModerator = False, canDraw = False, handRaised_m = False\<rparr>)],
     whiteboardDrawings = [], whiteboardBackground = None, allowedUsers = {''H''},
     lastActivity = 2000, handRaised = {}\<rparr>]"
  by (simp add: meeting_def eval_defs)

subsection \<open>At most one host\<close>

lemma no_flag_if_absent:
  "\<forall>p \<in> set xs. P (snd p) \<longrightarrow> fst p = h \<Longrightarrow> h \<notin> fst ` set xs \<Longrightarrow> filter P (map snd xs) = []"
  by (induction xs) (auto simp: image_iff)

lemma at_most_one_flag:
  "distinct (map fst xs) \<Longrightarrow> \<forall>p \<in> set xs. P (snd p) \<longrightarrow> fst p = h \<Longrightarrow> length (filter P (map snd xs)) \<le> 1"
proof (induction xs)
  case Nil
  then show ?case by simp
next
  case (Cons x xs)
  show ?case
  proof (cases "P (snd x)")
    case True
    with Cons.prems have "fst x = h" by simp
    with Cons.prems have "h \<notin> fst ` set xs" by (simp add: image_iff)
    moreover from Cons.prems have "\<forall>p \<in> set xs. P (snd p) \<longrightarrow> fst p = h" by simp
    ultimately have "filter P (map snd xs) = []" by (rule no_flag_if_absent[rotated])
    with True show ?thesis by simp
  next
    case False
    with Cons show ?thesis by simp
  qed
qed

lemma room_ok_host_count: "room_ok rm \<Longrightarrow> host_count rm \<le> 1"
proof -
  assume ok: "room_ok rm"
  obtain h where "\<forall>p \<in> set (members rm). isModerator (snd p) \<longrightarrow> fst p = h"
  proof (cases "hostId rm")
    case None
    with ok have "\<forall>p \<in> set (members rm). isModerator (snd p) \<longrightarrow> fst p = []"
      by (auto simp: room_ok_alt)
    then show ?thesis by (rule that)
  next
    case (Some h)
    with ok have "\<forall>p \<in> set (members rm). isModerator (snd p) \<longrightarrow> fst p = h"
      by (auto simp: room_ok_alt)
    then show ?thesis by (rule that)
  qed
  with ok show ?thesis unfolding host_count_def member_values_def
    by (intro at_most_one_flag) (auto simp: room_ok_alt)
qed

subsection \<open>The host is a member\<close>

lemma keys_with_member [simp]:
  "fst ` set (members (with_member k f rm)) = fst ` set (members rm)"
  "hostId (with_member k f rm) = hostId rm"
  "handRaised (with_member k f rm) = handRaised rm"
  "(members (with_member k f rm) = []) = (members rm = [])"
  by (auto simp: with_member_def dom_update split: option.splits dest!: map_of_SomeD intro: rev_image_eqI)

lemma host_present_frame [simp]:
  "host_present (rm\<lparr>locked := a\<rparr>) = host_present rm"
  "host_present (rm\<lparr>password := b\<rparr>) = host_present rm"
  "host_present (rm\<lparr>whiteboardDrawings := c\<rparr>) = host_present rm"
  "host_present (rm\<lparr>whiteboardBackground := d\<rparr>) = host_present rm"
  "host_present (rm\<lparr>allowedUsers := e\<rparr>) = host_present rm"
  "host_present (rm\<lparr>lastActivity := f\<rparr>) = host_present rm"
  "host_present (rm\<lparr>handRaised := g\<rparr>) = host_present rm"
  by (simp_all add: host_present_def split: option.splits)

lemma host_present_new [simp]: "host_present (new_room t)"
  by (simp add: host_present_def new_room_def)

lemma host_present_getOrCreate: "regs host_present \<sigma> \<Longrightarrow> host_present (getOrCreateRoom t rid (rooms \<sigma>))"
  by (auto simp: regs_def getOrCreateRoom_def split: option.splits)

lemma host_present_with_member [simp]: "host_present (with_member k f rm) = host_present rm"
  by (simp add: host_present_def split: option.splits)

lemma handle_host_present_frame:
  assumes "regs host_present \<sigma>"
  shows "regs host_present (fst (room_lock t s rid pw \<sigma>))"
    "regs host_present (fst (room_unlock t s rid \<sigma>))"
    "regs host_present (fst (chat_send t rnd s rid msg \<sigma>))"
    "regs host_present (fst (whiteboard_enable t s rid \<sigma>))"
    "regs host_present (fst (whiteboard_disable t s rid \<sigma>))"
    "regs host_present (fst (whiteboard_drawing t rnd s rid dr \<sigma>))"
    "regs host_present (fst (whiteboard_background t s rid bg \<sigma>))"
    "regs host_present (fst (whiteboard_clear t s rid \<sigma>))"
    "regs host_present (fst (mute_user t s rid uid \<sigma>))"
    "regs host_present (fst (remove_user t s rid uid \<sigma>))"
    "regs host_present (fst (reaction_send t rnd s rid r \<sigma>))"
    "regs host_present (fst (allow_user t s rid uid allow \<sigma>))"
    "regs host_present (fst (hand_raise t s rid \<sigma>))"
    "regs host_present (fst (hand_lower t s rid \<sigma>))"
  using assms host_present_getOrCreate[OF assms, of t rid]
  by (auto simp: room_lock_def room_unlock_def chat_send_def whiteboard_enable_def whiteboard_disable_def
      whiteboard_drawing_def whiteboard_background_def whiteboard_clear_def mute_user_def remove_user_def
      reaction_send_def allow_user_def hand_raise_def hand_lower_def Let_def split: option.splits intro!: regs_put)

lemma lower_all_host_present:
  assumes "regs host_present \<sigma>"
  shows "regs host_present (fst (hand_lower_all t s rid \<sigma>))"
  using assms host_present_getOrCreate[OF assms, of t rid]
  by (auto simp: hand_lower_all_def Let_def host_present_def image_iff
      split: option.splits intro!: regs_put) force+

lemma make_host_host_present:
  assumes "regs host_present \<sigma>" "target_present (Client s (MakeHost rid uid)) \<sigma>"
  shows "regs host_present (fst (make_host t s rid uid \<sigma>))"
  using assms host_present_getOrCreate[OF assms(1), of t rid]
  by (auto simp: make_host_def Let_def host_present_def getOrCreateRoom_def new_room_def
      split: option.splits intro!: regs_put) (force simp: image_iff)+

lemma join_host_present:
  assumes "regs host_present \<sigma>"
  shows "regs host_present (fst (join_room t s rid uid uname pw \<sigma>))"
  using assms host_present_getOrCreate[OF assms, of t rid]
  by (auto simp: join_room_def Let_def host_present_def dom_update truthy_def
      split: option.splits intro!: regs_put) (force simp: image_iff)+

lemma keys_delete: "fst ` set (AList.delete k al) = fst ` set al - {k}"
  by (auto simp: set_delete image_iff)

lemma failover_host_present:
  assumes "room_ok rm"
  shows "host_present (failover rm)"
proof (cases "members rm")
  case Nil
  then show ?thesis by (simp add: failover_def member_values_def host_present_def Let_def)
next
  case (Cons p ps)
  with assms have "id_m (snd p) = fst p" "fst p \<noteq> []" by (auto simp: room_ok_alt)
  with Cons assms show ?thesis
    by (cases p) (auto simp: failover_def member_values_def host_present_def Let_def dom_update
        split: option.splits)
qed

lemma disconnect_host_present:
  assumes "regs room_ok \<sigma>" "regs host_present \<sigma>"
  shows "regs host_present (fst (disconnect s \<sigma>))"
proof (cases "session \<sigma> s")
  case None
  then show ?thesis using assms by (simp add: disconnect_def)
next
  case (Some d)
  show ?thesis
  proof (cases "rooms \<sigma> (roomId d)")
    case None
    then show ?thesis using assms Some by (simp add: disconnect_def)
  next
    case (Some rm)
    let ?rm1 = "rm\<lparr>members := AList.delete (userId d) (members rm),
                    allowedUsers := allowedUsers rm - {userId d},
                    handRaised := handRaised rm - {userId d}\<rparr>"
    from assms Some have ok: "room_ok rm" and hp: "host_present rm" by (auto simp: regs_def)
    have ok1: "room_ok ?rm1" using room_ok_delete[OF ok, of "userId d"] by simp
    have hp2: "host_present (if hostId ?rm1 = Some (userId d) then failover ?rm1 else ?rm1)"
    proof (cases "hostId rm = Some (userId d)")
      case True
      with ok1 show ?thesis by (simp add: failover_host_present)
    next
      case False
      with hp show ?thesis
        by (auto simp: host_present_def keys_delete split: option.splits)
    qed
    from hp2 assms Some \<open>session \<sigma> s = Some d\<close> show ?thesis
      by (auto simp: disconnect_def Let_def regs_def put_room_def)
  qed
qed

lemma step_host_present:
  assumes "regs room_ok \<sigma>" "regs host_present \<sigma>" "target_present a \<sigma>"
  shows "regs host_present (fst (step t rnd a \<sigma>))"
proof (cases a)
  case (Connect s)
  then show ?thesis using assms by simp
next
  case (Client s e)
  then show ?thesis using assms
    by (cases e) (simp_all add: handle_host_present_frame lower_all_host_present
        make_host_host_present join_host_present disconnect_host_present)
next
  case Sweep
  then show ?thesis using assms by (simp add: sweep_regs)
qed

lemma run_host_present:
  "regs room_ok \<sigma> \<Longrightarrow> regs host_present \<sigma> \<Longrightarrow> targets_present acts \<sigma> \<Longrightarrow> regs host_present (run acts \<sigma>)"
  by (induction acts arbitrary: \<sigma>) (auto simp: step_room_ok step_host_present)

text \<open>
  C1 (amended). After every sequence of connections, client events and timer ticks, at most
  one member of a room has \<open>isModerator = true\<close>. If moreover every \<open>host:make-host\<close> of
  the sequence names a user who is a member of the room at that moment, then \<open>hostId\<close>
  is \<open>null\<close> only when the room has no member and otherwise is a key of the member map.
\<close>

theorem single_host:
  "rooms (run acts init) rid = Some rm \<Longrightarrow>
     host_count rm \<le> 1 \<and> (targets_present acts init \<longrightarrow> host_present rm)"
proof -
  assume r: "rooms (run acts init) rid = Some rm"
  have "room_ok rm"
    using run_room_ok[OF init_regs, of acts] r by (auto simp: regs_def)
  then have "host_count rm \<le> 1" by (rule room_ok_host_count)
  moreover have "targets_present acts init \<longrightarrow> host_present rm"
    using run_host_present[OF init_regs init_regs, of acts] r by (auto simp: regs_def)
  ultimately show ?thesis by simp
qed

text \<open>The hand-over scenario satisfies the side condition; its room has one host, \<open>A\<close>.\<close>

lemma handover_run: "rooms (run handover init) ''r'' = Some handover_room"
  by (simp add: handover_def handover_room_def eval_defs make_host_def with_member_def insert_commute)

lemma handover_targets: "targets_present handover init"
  by (simp add: handover_def eval_defs make_host_def with_member_def)

theorem single_host_witness:
  "rooms (run handover init) ''r'' = Some handover_room \<and> targets_present handover init \<and>
   host_count handover_room \<le> 1 \<and> host_present handover_room"
  using single_host[OF handover_run] handover_run handover_targets by simp

text \<open>
  C1 as stated fails: \<open>host:make-host\<close> stores the target in \<open>hostId\<close> whether or not the
  target is a member. After \<open>H\<close> names the absent user \<open>X\<close>, the member map is non-empty
  and \<open>hostId\<close> is not one of its keys (and no member is flagged as host).
\<close>

theorem host_absent_counterexample:
  "map_option hostId (rooms (run absent_target init) ''r'') = Some (Some ''X'') \<and>
   map_option (map fst \<circ> members) (rooms (run absent_target init) ''r'') = Some [''H''] \<and>
   map_option host_count (rooms (run absent_target init) ''r'') = Some 0"
  by (simp add: absent_target_def eval_defs make_host_def with_member_def host_count_def)

subsection \<open>Raised hands\<close>

lemma hands_ok_frame [simp]:
  "hands_ok (rm\<lparr>locked := a\<rparr>) = hands_ok rm"
  "hands_ok (rm\<lparr>password := b\<rparr>) = hands_ok rm"
  "hands_ok (rm\<lparr>whiteboardDrawings := c\<rparr>) = hands_ok rm"
  "hands_ok (rm\<lparr>whiteboardBackground := d\<rparr>) = hands_ok rm"
  "hands_ok (rm\<lparr>allowedUsers := e\<rparr>) = hands_ok rm"
  "hands_ok (rm\<lparr>lastActivity := f\<rparr>) = hands_ok rm"
  "hands_ok (rm\<lparr>hostId := h\<rparr>) = hands_ok rm"
  by (simp_all add: hands_ok_def)

lemma hands_ok_new [simp]: "hands_ok (new_room t)"
  by (simp add: hands_ok_def new_room_def)

lemma hands_ok_getOrCreate: "regs hands_ok \<sigma> \<Longrightarrow> hands_ok (getOrCreateRoom t rid (rooms \<sigma>))"
  by (auto simp: regs_def getOrCreateRoom_def split: option.splits)

lemma hands_ok_with_member [simp]: "hands_ok (with_member k f rm) = hands_ok rm"
  by (simp add: hands_ok_def)

lemma handle_hands_ok_frame:
  assumes "regs hands_ok \<sigma>"
  shows "regs hands_ok (fst (room_lock t s rid pw \<sigma>))"
    "regs hands_ok (fst (room_unlock t s rid \<sigma>))"
    "regs hands_ok (fst (chat_send t rnd s rid msg \<sigma>))"
    "regs hands_ok (fst (whiteboard_enable t s rid \<sigma>))"
    "regs hands_ok (fst (whiteboard_disable t s rid \<sigma>))"
    "regs hands_ok (fst (whiteboard_drawing t rnd s rid dr \<sigma>))"
    "regs hands_ok (fst (whiteboard_background t s rid bg \<sigma>))"
    "regs hands_ok (fst (whiteboard_clear t s rid \<sigma>))"
    "regs hands_ok (fst (mute_user t s rid uid \<sigma>))"
    "regs hands_ok (fst (remove_user t s rid uid \<sigma>))"
    "regs hands_ok (fst (reaction_send t rnd s rid r \<sigma>))"
    "regs hands_ok (fst (allow_user t s rid uid allow \<sigma>))"
    "regs hands_ok (fst (make_host t s rid uid \<sigma>))"
  using assms hands_ok_getOrCreate[OF assms, of t rid]
  by (auto simp: room_lock_def room_unlock_def chat_send_def whiteboard_enable_def whiteboard_disable_def
      whiteboard_drawing_def whiteboard_background_def whiteboard_clear_def mute_user_def remove_user_def
      reaction_send_def allow_user_def make_host_def Let_def split: option.splits intro!: regs_put)

lemma hand_lower_hands_ok:
  assumes "regs hands_ok \<sigma>"
  shows "regs hands_ok (fst (hand_lower t s rid \<sigma>))"
    "regs hands_ok (fst (hand_lower_all t s rid \<sigma>))"
    "regs hands_ok (fst (join_room t s rid uid uname pw \<sigma>))"
  using assms hands_ok_getOrCreate[OF assms, of t rid]
  by (auto simp: hand_lower_def hand_lower_all_def join_room_def Let_def hands_ok_def dom_update
      split: option.splits intro!: regs_put)

lemma hand_raise_hands_ok:
  assumes "regs hands_ok \<sigma>" "raiser_present (Client s (HandRaise rid)) \<sigma>"
  shows "regs hands_ok (fst (hand_raise t s rid \<sigma>))"
  using assms hands_ok_getOrCreate[OF assms(1), of t rid]
  by (auto simp: hand_raise_def Let_def hands_ok_def getOrCreateRoom_def
      split: option.splits intro!: regs_put) (force simp: image_iff)+

lemma failover_keys [simp]:
  "fst ` set (members (failover rm)) = fst ` set (members rm)"
  "handRaised (failover rm) = handRaised rm"
  by (auto simp: failover_def Let_def dom_update split: option.splits list.splits
      dest!: map_of_SomeD intro: rev_image_eqI)

lemma disconnect_hands_ok:
  assumes "regs hands_ok \<sigma>"
  shows "regs hands_ok (fst (disconnect s \<sigma>))"
proof (cases "session \<sigma> s")
  case None
  then show ?thesis using assms by (simp add: disconnect_def)
next
  case (Some d)
  show ?thesis
  proof (cases "rooms \<sigma> (roomId d)")
    case None
    then show ?thesis using assms Some by (simp add: disconnect_def)
  next
    case (Some rm)
    let ?rm1 = "rm\<lparr>members := AList.delete (userId d) (members rm),
                    allowedUsers := allowedUsers rm - {userId d},
                    handRaised := handRaised rm - {userId d}\<rparr>"
    from assms Some have h: "hands_ok rm" by (auto simp: regs_def)
    then have h1: "hands_ok ?rm1" by (auto simp: hands_ok_def keys_delete)
    then have h2: "hands_ok (if hostId ?rm1 = Some (userId d) then failover ?rm1 else ?rm1)"
      by (simp add: hands_ok_def)
    from h2 assms Some \<open>session \<sigma> s = Some d\<close> show ?thesis
      by (auto simp: disconnect_def Let_def regs_def put_room_def)
  qed
qed

lemma step_hands_ok:
  assumes "regs hands_ok \<sigma>" "raiser_present a \<sigma>"
  shows "regs hands_ok (fst (step t rnd a \<sigma>))"
proof (cases a)
  case (Connect s)
  then show ?thesis using assms by simp
next
  case (Client s e)
  then show ?thesis using assms
    by (cases e) (simp_all add: handle_hands_ok_frame hand_lower_hands_ok
        hand_raise_hands_ok disconnect_hands_ok)
next
  case Sweep
  then show ?thesis using assms by (simp add: sweep_regs)
qed

text \<open>
  C8 (amended). Every step of the server (a connection, any client event, a timer tick)
  preserves \<open>raisedHands \<subseteq> keys(members)\<close> for all rooms, provided that a \<open>hand:raise\<close>
  comes from a connection whose user id is a key of the member map of the room it
  addresses. Hand lower, lower-all, join and disconnect preserve it unconditionally.
\<close>

theorem raised_hands_preserved:
  "regs hands_ok \<sigma> \<Longrightarrow> raiser_present a \<sigma> \<Longrightarrow> regs hands_ok (fst (step t rnd a \<sigma>))"
  by (rule step_hands_ok)

text \<open>In the meeting, the member \<open>A\<close> raises a hand.\<close>

theorem raised_hands_preserved_witness:
  "regs hands_ok meeting \<and> raiser_present (Client ''s2'' (HandRaise ''r'')) meeting \<and>
   regs hands_ok (fst (step 3000 ''k3x9'' (Client ''s2'' (HandRaise ''r'')) meeting)) \<and>
   map_option handRaised (rooms (fst (step 3000 ''k3x9'' (Client ''s2'' (HandRaise ''r'')) meeting)) ''r'') = Some {''A''}"
proof -
  have a: "regs hands_ok meeting"
    by (simp add: regs_def meeting_rooms hands_ok_def)
  have b: "raiser_present (Client ''s2'' (HandRaise ''r'')) meeting"
    by (simp add: meeting_sockets meeting_room session_def)
  have c: "map_option handRaised (rooms (fst (step 3000 ''k3x9'' (Client ''s2'' (HandRaise ''r'')) meeting)) ''r'') = Some {''A''}"
    by (simp add: meeting_sockets meeting_room session_def hand_raise_def Let_def getOrCreateRoom_def put_room_def with_member_def)
  from raised_hands_preserved[OF a b] a b c show ?thesis by simp
qed

text \<open>
  C8 as stated fails for \<open>hand:raise\<close>: the handler adds the caller's user id to
  \<open>handRaised\<close> before it looks the member up. With \<open>A\<close> connected twice and one
  connection dropped, the remaining connection raises a hand for a user who is no longer
  a key of the member map.
\<close>

theorem raised_hand_of_non_member_counterexample:
  "map_option hands_ok (rooms (run two_tabs init) ''r'') = Some True \<and>
   map_option hands_ok (rooms (fst (step 5000 ''k3x9'' (Client ''s3'' (HandRaise ''r'')) (run two_tabs init))) ''r'') = Some False \<and>
   map_option handRaised (rooms (fst (step 5000 ''k3x9'' (Client ''s3'' (HandRaise ''r'')) (run two_tabs init))) ''r'') = Some {''A''} \<and>
   map_option (map fst \<circ> members) (rooms (fst (step 5000 ''k3x9'' (Client ''s3'' (HandRaise ''r'')) (run two_tabs init))) ''r'') = Some [''H'']"
  by (simp add: two_tabs_def eval_defs disconnect_def hand_raise_def with_member_def hands_ok_def failover_def)

subsection \<open>Identifiers\<close>

lemma digit_char_inj: "d < 10 \<Longrightarrow> e < 10 \<Longrightarrow> digit_char d = digit_char e \<Longrightarrow> d = e"
proof -
  assume "d < 10" "e < 10" "digit_char d = digit_char e"
  moreover have "distinct ''0123456789''" by simp
  ultimately show "d = e"
    unfolding digit_char_def by (simp add: nth_eq_iff_index_eq)
qed

lemma digit_char_in: "d < 10 \<Longrightarrow> digit_char d \<in> set ''0123456789''"
  unfolding digit_char_def by (rule nth_mem) simp

lemma digit_char_no_dash: "d < 10 \<Longrightarrow> digit_char d \<noteq> CHR ''-''"
  using digit_char_in[of d] by auto

lemma show_nat_no_dash: "CHR ''-'' \<notin> set (show_nat n)"
proof (induction n rule: show_nat.induct)
  case (1 n)
  show ?case
  proof (cases "n < 10")
    case True
    then show ?thesis using digit_char_no_dash[of n] by (simp add: show_nat.simps[of n])
  next
    case False
    then show ?thesis using 1 digit_char_no_dash[of "n mod 10"]
      by (simp add: show_nat.simps[of n])
  qed
qed

lemma show_nat_length: "length (show_nat n) = 1 \<longleftrightarrow> n < 10"
proof (cases "n < 10")
  case True
  then show ?thesis by (simp add: show_nat.simps[of n])
next
  case False
  have "show_nat (n div 10) \<noteq> []"
    by (subst show_nat.simps) simp
  then show ?thesis using False
    by (simp add: show_nat.simps[of n])
qed

lemma show_nat_inj: "show_nat n = show_nat m \<Longrightarrow> n = m"
proof (induction n arbitrary: m rule: show_nat.induct)
  case (1 n)
  show ?case
  proof (cases "n < 10")
    case True
    with "1.prems" have "m < 10" using show_nat_length[of n] show_nat_length[of m] by simp
    with True "1.prems" show ?thesis
      by (simp add: show_nat.simps[of n] show_nat.simps[of m] digit_char_inj)
  next
    case False
    with "1.prems" have m: "\<not> m < 10" using show_nat_length[of n] show_nat_length[of m] by simp
    with False "1.prems" have "show_nat (n div 10) = show_nat (m div 10)"
      and "digit_char (n mod 10) = digit_char (m mod 10)"
      by (simp_all add: show_nat.simps[of n] show_nat.simps[of m])
    then have "n div 10 = m div 10" and "n mod 10 = m mod 10"
      using "1.IH"[OF False] by (simp_all add: digit_char_inj)
    then show ?thesis by (metis div_mult_mod_eq)
  qed
qed

lemma show_int_inj: "0 \<le> i \<Longrightarrow> 0 \<le> j \<Longrightarrow> show_int i = show_int j \<Longrightarrow> i = j"
  by (auto simp: show_int_def dest!: show_nat_inj)

lemma show_int_no_dash: "0 \<le> i \<Longrightarrow> CHR ''-'' \<notin> set (show_int i)"
  by (simp add: show_int_def show_nat_no_dash)

lemma split_at_first:
  "x \<notin> set p \<Longrightarrow> x \<notin> set q \<Longrightarrow> p @ x # a = q @ x # b \<Longrightarrow> p = q \<and> a = b"
proof (induction p arbitrary: q)
  case Nil
  then show ?case by (cases q) auto
next
  case (Cons y p)
  then show ?case by (cases q) auto
qed

lemma split_at_last:
  assumes "x \<notin> set a" "x \<notin> set b" "p @ x # a = q @ x # b"
  shows "p = q \<and> a = b"
proof -
  from assms(3) have "rev (p @ x # a) = rev (q @ x # b)" by simp
  then have "rev a @ x # rev p = rev b @ x # rev q" by simp
  with assms(1,2) have "rev a = rev b \<and> rev p = rev q"
    by (intro split_at_first[of x]) simp_all
  then show ?thesis by simp
qed

lemma make_id_inj:
  assumes "0 \<le> t" "0 \<le> t'" "CHR ''-'' \<notin> set r" "CHR ''-'' \<notin> set r'"
  shows "make_id u t r = make_id u' t' r' \<longleftrightarrow> u = u' \<and> t = t' \<and> r = r'"
proof
  assume eq: "make_id u t r = make_id u' t' r'"
  then have "(u @ CHR ''-'' # show_int t) @ CHR ''-'' # r = (u' @ CHR ''-'' # show_int t') @ CHR ''-'' # r'"
    by (simp add: make_id_def)
  then have "u @ CHR ''-'' # show_int t = u' @ CHR ''-'' # show_int t' \<and> r = r'"
    by (rule split_at_last[OF assms(3) assms(4)])
  then have 1: "u @ CHR ''-'' # show_int t = u' @ CHR ''-'' # show_int t'" and r: "r = r'"
    by simp_all
  have "u = u' \<and> show_int t = show_int t'"
    using show_int_no_dash[OF assms(1)] show_int_no_dash[OF assms(2)] 1 by (rule split_at_last)
  then have "u = u'" and "t = t'"
    using show_int_inj[OF assms(1) assms(2)] by simp_all
  with r show "u = u' \<and> t = t' \<and> r = r'" by simp
next
  assume "u = u' \<and> t = t' \<and> r = r'"
  then show "make_id u t r = make_id u' t' r'" by simp
qed

subsection \<open>Sessions\<close>

lemma session_upd_conn:
  "map_of (upd_conn s f cs) k = (if k = s then map_option f (map_of cs k) else map_of cs k)"
  by (induction cs) (auto simp: upd_conn_def)

lemma session_stamped:
  "session \<sigma> s = Some d \<Longrightarrow>
   session (\<sigma>\<lparr>sockets := upd_conn s (\<lambda>c. c\<lparr>data := Some (d\<lparr>lastChatTime := x\<rparr>)\<rparr>) (sockets \<sigma>)\<rparr>) s
     = Some (d\<lparr>lastChatTime := x\<rparr>)"
  by (auto simp: session_def session_upd_conn split: option.splits if_splits)

lemma session_userId: "session \<sigma> s = Some d \<Longrightarrow> userId d \<noteq> [] \<and> roomId d \<noteq> []"
  by (auto simp: session_def split: option.splits if_splits)

lemma map_of_delete_other: "k \<noteq> s \<Longrightarrow> map_of (AList.delete s al) k = map_of al k"
  by (simp add: delete_conv')

lemma session_frame:
  "s' \<noteq> s \<or> \<not> rebinds e \<Longrightarrow> session (fst (handle t rnd s' e \<sigma>)) s = session \<sigma> s"
  by (cases e)
    (auto simp: session_def join_room_def room_lock_def room_unlock_def chat_send_def whiteboard_enable_def
      whiteboard_disable_def whiteboard_drawing_def whiteboard_background_def whiteboard_clear_def
      allow_user_def make_host_def hand_raise_def hand_lower_def hand_lower_all_def mute_user_def
      remove_user_def reaction_send_def disconnect_def Let_def put_room_def session_upd_conn
      map_of_delete_other split: option.splits)

lemma room_ok_reachable: "rooms (run acts init) rid = Some rm \<Longrightarrow> room_ok rm"
  using run_room_ok[OF init_regs, of acts] by (auto simp: regs_def)

subsection \<open>Whiteboard\<close>

text \<open>
  The gate of \<open>whiteboard:drawing\<close> is the set \<open>allowedUsers\<close>: an event from a connection
  whose user id is not in the set of the addressed room (or which has no session, or whose
  room does not exist) emits nothing at all and leaves the drawing log of every room as it
  was.
\<close>

lemma draw_gated:
  "\<not> may_draw \<sigma> s rid \<Longrightarrow>
     snd (handle t rnd s (WhiteboardDrawing rid dr) \<sigma>) = [] \<and>
     drawing_log (fst (handle t rnd s (WhiteboardDrawing rid dr) \<sigma>)) r = drawing_log \<sigma> r"
  by (auto simp: may_draw_def whiteboard_drawing_def drawing_log_def Let_def getOrCreateRoom_def
      new_room_def put_room_def split: option.splits)

text \<open>In the meeting the member \<open>A\<close> is not in \<open>allowedUsers\<close>; a drawing of theirs is dropped.\<close>

lemma draw_gated_meeting:
  "\<not> may_draw meeting ''s2'' ''r'' \<and>
   snd (handle 3000 ''k3x9'' ''s2'' (WhiteboardDrawing ''r'' \<lparr>id_d = ''c1'', body_d = ''line''\<rparr>) meeting) = [] \<and>
   drawing_log (fst (handle 3000 ''k3x9'' ''s2'' (WhiteboardDrawing ''r'' \<lparr>id_d = ''c1'', body_d = ''line''\<rparr>) meeting)) ''r'' = []"
proof -
  have a: "\<not> may_draw meeting ''s2'' ''r''"
    by (simp add: may_draw_def meeting_sockets meeting_room session_def)
  have b: "drawing_log meeting ''r'' = []"
    by (simp add: drawing_log_def meeting_room)
  from draw_gated[OF a, of 3000 "''k3x9''" "\<lparr>id_d = ''c1'', body_d = ''line''\<rparr>" "''r''"] a b
  show ?thesis by simp
qed

text \<open>With the permission, the drawing is stored and relayed to the others under the id
  assigned by the server.\<close>

lemma draw_allowed:
  "may_draw \<sigma> s rid \<Longrightarrow> session \<sigma> s = Some d \<Longrightarrow>
     snd (handle t rnd s (WhiteboardDrawing rid dr) \<sigma>) = [(ToOthers rid, EvWhiteboardDrawing (dr\<lparr>id_d := make_id (userId d) t rnd\<rparr>))] \<and>
     drawing_log (fst (handle t rnd s (WhiteboardDrawing rid dr) \<sigma>)) rid = drawing_log \<sigma> rid @ [dr\<lparr>id_d := make_id (userId d) t rnd\<rparr>]"
  by (auto simp: may_draw_def whiteboard_drawing_def drawing_log_def Let_def getOrCreateRoom_def
      new_room_def put_room_def split: option.splits)

text \<open>The member object's \<open>canDraw\<close> field is the copy of that permission which the
  member list shows. \<open>join-room\<close> fills it from \<open>allowedUsers\<close>, and
  \<open>whiteboard:allow-user\<close> changes the set and the field together.\<close>

lemma allow_user_syncs_flag:
  assumes "session \<sigma> s = Some d" and "rooms \<sigma> rid = Some rm" and "hostId rm = Some (userId d)"
    and "map_of (members rm) uid = Some m"
  shows "\<exists>rm'. rooms (fst (allow_user t s rid uid allow \<sigma>)) rid = Some rm' \<and>
           map_option canDraw (map_of (members rm') uid) = Some allow \<and>
           (uid \<in> allowedUsers rm') = allow"
  using assms
  by (auto simp: allow_user_def Let_def getOrCreateRoom_def put_room_def with_member_def update_conv')

text \<open>
  C6 (the code at the failing input). \<open>host:make-host\<close> and the failover add the new host
  to \<open>allowedUsers\<close> and leave the member's \<open>canDraw\<close> field as it was. After \<open>H\<close> has
  made \<open>A\<close> host and \<open>A\<close> has handed the role back, \<open>A\<close> is an ordinary member whose
  \<open>canDraw\<close> is \<open>false\<close>; a drawing of \<open>A\<close> is nevertheless appended to the drawing log
  and relayed to the other participant.
\<close>

theorem stale_flag_draws:
  "map_option hostId (rooms (run handback init) ''r'') = Some (Some ''H'') \<and>
   map_option member_values (rooms (run handback init) ''r'') =
     Some [\<lparr>id_m = ''H'', name_m = ''Hana'', isModerator = True, canDraw = True, handRaised_m = False\<rparr>,
           \<lparr>id_m = ''A'', name_m = ''Ann'', isModerator = False, canDraw = False, handRaised_m = False\<rparr>] \<and>
   snd (step 4000 ''k3x9'' (Client ''s2'' (WhiteboardDrawing ''r'' \<lparr>id_d = ''c1'', body_d = ''line''\<rparr>))
          (run handback init)) =
     [(ToOthers ''r'', EvWhiteboardDrawing \<lparr>id_d = ''A-4000-k3x9'', body_d = ''line''\<rparr>)] \<and>
   drawing_log (run handback init) ''r'' = [] \<and>
   drawing_log (fst (step 4000 ''k3x9'' (Client ''s2'' (WhiteboardDrawing ''r'' \<lparr>id_d = ''c1'', body_d = ''line''\<rparr>))
          (run handback init))) ''r'' = [\<lparr>id_d = ''A-4000-k3x9'', body_d = ''line''\<rparr>] \<and>
   recipients (fst (step 4000 ''k3x9'' (Client ''s2'' (WhiteboardDrawing ''r'' \<lparr>id_d = ''c1'', body_d = ''line''\<rparr>))
          (run handback init))) ''s2'' (ToOthers ''r'') = [''s1'']"
  by (simp add: handback_def eval_defs make_host_def with_member_def whiteboard_drawing_def drawing_log_def
      make_id_def show_int_def show_nat.simps digit_char_def)

subsection \<open>Server-assigned ids\<close>

text \<open>
  C7 (amended). Every chat message, drawing and reaction that the relay emits on ingestion
  carries the id \<open>userId-clock-suffix\<close> built by the server, whatever id the client put
  into the object; the stored drawing carries the same id. For clock values that are not
  negative and suffixes without a dash, two such ids are equal exactly when user id, clock
  value and random suffix are all equal: ids differ as soon as one of the three differs,
  and nothing else makes them differ.
\<close>

theorem server_assigned_ids:
  assumes "session \<sigma> s = Some d"
  shows "(throttle_open t d \<longrightarrow>
            snd (chat_send t rnd s rid (Some m) \<sigma>) =
              [(ToRoom rid, EvChatReceive (m\<lparr>id_msg := make_id (userId d) t rnd\<rparr>) (Some False))]) \<and>
         (may_draw \<sigma> s rid \<longrightarrow>
            snd (whiteboard_drawing t rnd s rid dr \<sigma>) =
              [(ToOthers rid, EvWhiteboardDrawing (dr\<lparr>id_d := make_id (userId d) t rnd\<rparr>))] \<and>
            drawing_log (fst (whiteboard_drawing t rnd s rid dr \<sigma>)) rid =
              drawing_log \<sigma> rid @ [dr\<lparr>id_d := make_id (userId d) t rnd\<rparr>]) \<and>
         snd (reaction_send t rnd s rid r \<sigma>) =
           [(ToOthers rid, EvReaction (r\<lparr>id_r := make_id (userId d) t rnd\<rparr>))] \<and>
         (0 \<le> t \<and> 0 \<le> t' \<and> CHR ''-'' \<notin> set rnd \<and> CHR ''-'' \<notin> set rnd' \<longrightarrow>
            (make_id u t rnd = make_id u' t' rnd') = (u = u' \<and> t = t' \<and> rnd = rnd'))"
  using assms draw_allowed[of \<sigma> s rid d t rnd dr] make_id_inj[of t t' rnd rnd' u u']
  by (auto simp: chat_send_def reaction_send_def)

text \<open>The host of the meeting draws, reacts and chats at clock value 3000.\<close>

theorem server_assigned_ids_witness:
  "snd (whiteboard_drawing 3000 ''k3x9'' ''s1'' ''r'' \<lparr>id_d = ''c1'', body_d = ''line''\<rparr> meeting) =
     [(ToOthers ''r'', EvWhiteboardDrawing \<lparr>id_d = ''H-3000-k3x9'', body_d = ''line''\<rparr>)] \<and>
   snd (reaction_send 3000 ''k3x9'' ''s1'' ''r'' \<lparr>id_r = ''c2'', body_r = ''clap''\<rparr> meeting) =
     [(ToOthers ''r'', EvReaction \<lparr>id_r = ''H-3000-k3x9'', body_r = ''clap''\<rparr>)] \<and>
   snd (chat_send 3000 ''k3x9'' ''s1'' ''r'' (Some \<lparr>id_msg = ''c3'', body_msg = ''hello''\<rparr>) meeting) =
     [(ToRoom ''r'', EvChatReceive \<lparr>id_msg = ''H-3000-k3x9'', body_msg = ''hello''\<rparr> (Some False))] \<and>
   make_id ''H'' 3000 ''k3x9'' \<noteq> make_id ''H'' 3000 ''k3xa''"
proof -
  have se: "session meeting ''s1'' = Some \<lparr>userId = ''H'', roomId = ''r'', userName = ''Hana'', lastChatTime = None\<rparr>"
    by (simp add: meeting_sockets session_def)
  have dr: "may_draw meeting ''s1'' ''r''"
    by (simp add: may_draw_def se meeting_room)
  have mk: "make_id ''H'' 3000 ''k3x9'' = ''H-3000-k3x9''"
    by (simp add: make_id_def show_int_def show_nat.simps digit_char_def)
  from server_assigned_ids[OF se, where t = 3000 and rnd = "''k3x9''" and rid = "''r''"
      and dr = "\<lparr>id_d = ''c1'', body_d = ''line''\<rparr>" and r = "\<lparr>id_r = ''c2'', body_r = ''clap''\<rparr>"
      and m = "\<lparr>id_msg = ''c3'', body_msg = ''hello''\<rparr>" and t' = 3000 and rnd' = "''k3xa''"
      and u = "''H''" and u' = "''H''"] dr mk
  show ?thesis by (simp add: throttle_open_def)
qed

text \<open>
  C7 as stated fails: two different drawings of one user, ingested in the same
  millisecond with the same random suffix, are stored and relayed under one id.
\<close>

theorem same_tick_same_id_counterexample:
  "drawing_log (run same_tick meeting) ''r'' =
     [\<lparr>id_d = ''H-3000-k3x9'', body_d = ''line''\<rparr>, \<lparr>id_d = ''H-3000-k3x9'', body_d = ''circle''\<rparr>] \<and>
   snd (step 3000 ''k3x9'' (Client ''s1'' (WhiteboardDrawing ''r'' \<lparr>id_d = ''c1'', body_d = ''line''\<rparr>)) meeting) =
     [(ToOthers ''r'', EvWhiteboardDrawing \<lparr>id_d = ''H-3000-k3x9'', body_d = ''line''\<rparr>)] \<and>
   snd (step 3000 ''k3x9'' (Client ''s1'' (WhiteboardDrawing ''r'' \<lparr>id_d = ''c2'', body_d = ''circle''\<rparr>))
          (run (take 1 same_tick) meeting)) =
     [(ToOthers ''r'', EvWhiteboardDrawing \<lparr>id_d = ''H-3000-k3x9'', body_d = ''circle''\<rparr>)]"
  by (simp add: same_tick_def meeting_def eval_defs whiteboard_drawing_def drawing_log_def
      make_id_def show_int_def show_nat.simps digit_char_def)

subsection \<open>Failover\<close>

text \<open>The member map keeps the order of joining: a join of a user who is not yet a key
  appends the key, a join of a present user keeps its place, a disconnect removes the
  key of the leaving user, and no other event changes the key list.\<close>

lemma order_update_present:
  "map_of al k = Some v \<Longrightarrow> map fst (AList.update k w al) = map fst al"
proof -
  assume "map_of al k = Some v"
  then have "k \<in> fst ` set al" by (metis map_of_eq_None_iff option.distinct(1))
  then show ?thesis by (simp add: update_keys)
qed

lemma order_with_member [simp]: "map fst (members (with_member k f rm)) = map fst (members rm)"
  by (simp add: with_member_def order_update_present split: option.splits)

lemma order_failover [simp]: "map fst (members (failover rm)) = map fst (members rm)"
  by (simp add: failover_def Let_def order_update_present split: option.splits)

lemma members_getOrCreate:
  "members (getOrCreateRoom t rid rs) = (case rs rid of None \<Rightarrow> [] | Some rm \<Rightarrow> members rm)"
  by (simp add: getOrCreateRoom_def new_room_def split: option.splits)

lemma member_order_join:
  "member_ids (fst (join_room t s rid uid uname pw \<sigma>)) r = member_ids \<sigma> r \<or>
   (r = rid \<and> uid \<notin> set (member_ids \<sigma> r) \<and>
    member_ids (fst (join_room t s rid uid uname pw \<sigma>)) r = member_ids \<sigma> r @ [uid])"
  by (auto simp: join_room_def Let_def put_room_def update_keys member_ids_def members_getOrCreate
      split: option.splits)

lemma member_order_disconnect:
  "member_ids (fst (disconnect s \<sigma>)) r =
     (case session \<sigma> s of None \<Rightarrow> member_ids \<sigma> r
      | Some d \<Rightarrow> if r = roomId d then removeAll (userId d) (member_ids \<sigma> r) else member_ids \<sigma> r)"
proof (cases "session \<sigma> s")
  case None
  then show ?thesis by (simp add: disconnect_def member_ids_def)
next
  case (Some d)
  show ?thesis
  proof (cases "rooms \<sigma> (roomId d)")
    case None
    then show ?thesis using Some by (simp add: disconnect_def member_ids_def)
  next
    case (Some rm)
    let ?rm1 = "rm\<lparr>members := AList.delete (userId d) (members rm),
                    allowedUsers := allowedUsers rm - {userId d},
                    handRaised := handRaised rm - {userId d}\<rparr>"
    let ?rm2 = "if hostId ?rm1 = Some (userId d) then failover ?rm1 else ?rm1"
    have k: "map fst (members ?rm2) = removeAll (userId d) (map fst (members rm))"
      by (simp add: delete_keys)
    have e: "members ?rm2 = [] \<longleftrightarrow> removeAll (userId d) (map fst (members rm)) = []"
      using k by (metis map_is_Nil_conv)
    show ?thesis using Some \<open>session \<sigma> s = Some d\<close> k e
      by (auto simp: disconnect_def Let_def put_room_def member_ids_def)
  qed
qed

lemma member_order_other:
  "\<not> rebinds e \<Longrightarrow> member_ids (fst (handle t rnd s e \<sigma>)) r = member_ids \<sigma> r"
  by (cases e)
    (auto simp: room_lock_def room_unlock_def whiteboard_enable_def
      whiteboard_disable_def whiteboard_drawing_def whiteboard_background_def whiteboard_clear_def
      allow_user_def make_host_def hand_raise_def hand_lower_def hand_lower_all_def mute_user_def
      remove_user_def reaction_send_def Let_def put_room_def member_ids_def comp_def case_prod_beta
      members_getOrCreate split: option.splits)

lemma member_order_chat:
  "member_ids (fst (chat_send t rnd s rid msg \<sigma>)) r = member_ids \<sigma> r"
  by (auto simp: chat_send_def member_ids_def split: option.splits)

lemma member_order:
  "member_ids (fst (handle t rnd s e \<sigma>)) r = member_ids \<sigma> r \<or>
   (\<exists>u. u \<notin> set (member_ids \<sigma> r) \<and> member_ids (fst (handle t rnd s e \<sigma>)) r = member_ids \<sigma> r @ [u]) \<or>
   (\<exists>u. member_ids (fst (handle t rnd s e \<sigma>)) r = removeAll u (member_ids \<sigma> r))"
proof (cases "rebinds e")
  case False
  then show ?thesis by (simp add: member_order_other)
next
  case True
  then show ?thesis
  proof (cases e)
    case (JoinRoom rid uid uname pw)
    then show ?thesis using member_order_join[of t s rid uid uname pw \<sigma> r] by auto
  next
    case (ChatSend rid msg)
    then show ?thesis by (simp add: member_order_chat)
  next
    case Disconnect
    then show ?thesis using member_order_disconnect[of s \<sigma> r]
      by (auto split: option.splits if_splits)
  qed simp_all
qed

text \<open>
  C2. In every reachable state, when the connection of the host disconnects and members
  remain, the new host is the first remaining entry \<open>k\<close> of the member map in insertion
  order (the one that joined earliest): \<open>hostId\<close> becomes \<open>k\<close>, that member's
  \<open>isModerator\<close> flag is set, \<open>k\<close> is added to \<open>allowedUsers\<close>, and the \<open>room-state\<close>
  snapshot with the new host and the member list goes to the whole room, followed by the
  member list.
\<close>

theorem failover_promotes_earliest:
  assumes "session (run acts init) s = Some d"
    and "rooms (run acts init) (roomId d) = Some rm"
    and "hostId rm = Some (userId d)"
    and "AList.delete (userId d) (members rm) = (k, m) # rest"
  shows "let rm' = rm\<lparr>hostId := Some k,
                      members := (k, m\<lparr>isModerator := True\<rparr>) # rest,
                      allowedUsers := insert k (allowedUsers rm - {userId d}),
                      handRaised := handRaised rm - {userId d}\<rparr>
         in rooms (fst (disconnect s (run acts init))) (roomId d) = Some rm' \<and>
            snd (disconnect s (run acts init)) =
              [(ToRoom (roomId d), EvRoomState (locked rm) (Some k) (member_values rm') None),
               (ToRoom (roomId d), EvRoomMembers (member_values rm'))]"
proof -
  have ok: "room_ok rm" using assms(2) by (rule room_ok_reachable)
  have "(k, m) \<in> set (AList.delete (userId d) (members rm))" using assms(4) by simp
  then have "(k, m) \<in> set (members rm)" by (simp add: set_delete)
  with ok have km: "id_m m = k" "k \<noteq> []" by (auto simp: room_ok_alt)
  show ?thesis using assms km
    by (simp add: disconnect_def failover_def member_values_def Let_def truthy_def put_room_def)
qed

text \<open>\<open>H\<close>, \<open>A\<close>, \<open>B\<close> joined in this order and \<open>H\<close> disconnects: the new host is \<open>A\<close>,
  not \<open>B\<close>.\<close>

lemma trio_session:
  "session (run trio_acts init) ''s1'' = Some \<lparr>userId = ''H'', roomId = ''r'', userName = ''Hana'', lastChatTime = None\<rparr>"
  by (simp add: trio_acts_def eval_defs)

lemma trio_rooms: "rooms (run trio_acts init) ''r'' = Some trio_room"
  by (simp add: trio_acts_def trio_room_def eval_defs)

theorem failover_promotes_earliest_witness:
  "session (run trio_acts init) ''s1'' = Some \<lparr>userId = ''H'', roomId = ''r'', userName = ''Hana'', lastChatTime = None\<rparr> \<and>
   map_option hostId (rooms (run trio_acts init) ''r'') = Some (Some ''H'') \<and>
   map_option (map fst \<circ> members) (rooms (run trio_acts init) ''r'') = Some [''H'', ''A'', ''B''] \<and>
   map_option hostId (rooms (fst (disconnect ''s1'' (run trio_acts init))) ''r'') = Some (Some ''A'') \<and>
   map_option (map fst \<circ> members) (rooms (fst (disconnect ''s1'' (run trio_acts init))) ''r'') = Some [''A'', ''B''] \<and>
   map_option (map isModerator \<circ> member_values) (rooms (fst (disconnect ''s1'' (run trio_acts init))) ''r'') = Some [True, False] \<and>
   map_option allowedUsers (rooms (fst (disconnect ''s1'' (run trio_acts init))) ''r'') = Some {''A''} \<and>
   map fst (snd (disconnect ''s1'' (run trio_acts init))) = [ToRoom ''r'', ToRoom ''r'']"
proof -
  have d: "AList.delete ''H'' (members trio_room) =
      (''A'', \<lparr>id_m = ''A'', name_m = ''Ann'', isModerator = False, canDraw = False, handRaised_m = False\<rparr>) #
      [(''B'', \<lparr>id_m = ''B'', name_m = ''Bob'', isModerator = False, canDraw = False, handRaised_m = False\<rparr>)]"
    by (simp add: trio_room_def)
  have h: "hostId trio_room = Some ''H''" by (simp add: trio_room_def)
  from failover_promotes_earliest[OF trio_session, simplified, OF trio_rooms h d] trio_session trio_rooms
  show ?thesis by (simp add: Let_def trio_room_def member_values_def)
qed

subsection \<open>Locking\<close>

text \<open>
  C4. Let the host of a room lock it with a non-empty password \<open>p\<close> (the lock handler
  ignores an empty one). A following join of a non-host user with password \<open>p\<close> puts the
  user into the member map and sends the room snapshot to the joining connection; a join
  with any other password, or none, gets \<open>error:password-required\<close> only, and the room is
  as before except for its \<open>lastActivity\<close>.
\<close>

theorem lock_round_trip:
  assumes "session \<sigma> s = Some d" and "rooms \<sigma> rid = Some rm" and "hostId rm = Some (userId d)"
    and "p \<noteq> []" and "rid \<noteq> []" and "uid \<noteq> []" and "uid \<noteq> userId d"
  shows "snd (room_lock t s rid p \<sigma>) = [(ToRoom rid, EvRoomLocked)] \<and>
    (let \<sigma>1 = fst (room_lock t s rid p \<sigma>);
         rm1 = rm\<lparr>locked := True, password := Some p, lastActivity := t'\<rparr>;
         rm2 = rm1\<lparr>members := AList.update uid
                  \<lparr>id_m = uid, name_m = uname, isModerator = False,
                    canDraw = (uid \<in> allowedUsers rm), handRaised_m = (uid \<in> handRaised rm)\<rparr>
                  (members rm)\<rparr>
     in rooms (fst (join_room t' s' rid uid uname (Some p) \<sigma>1)) rid = Some rm2 \<and>
        uid \<in> fst ` set (members rm2) \<and>
        snd (join_room t' s' rid uid uname (Some p) \<sigma>1) =
          [(ToSender, EvRoomState True (Some (userId d)) (member_values rm2) (Some (uid \<in> allowedUsers rm))),
           (ToSender, EvWhiteboardState (whiteboardDrawings rm) (whiteboardBackground rm)),
           (ToOthers rid, EvRoomMembers (member_values rm2))] \<and>
        (pw \<noteq> Some p \<longrightarrow>
           join_room t' s' rid uid uname pw \<sigma>1 =
             (\<sigma>1\<lparr>rooms := (rooms \<sigma>1)(rid \<mapsto> rm1)\<rparr>, [(ToSender, EvPasswordRequired)])))"
  using assms session_userId[OF assms(1)]
  by (auto simp: room_lock_def join_room_def Let_def getOrCreateRoom_def put_room_def truthy_def
      strict_neq_def dom_update split: option.splits)

text \<open>The host locks the meeting with \<open>pw\<close>; \<open>B\<close> gets in with \<open>pw\<close> and not with a guess.\<close>

lemma lobby_rooms: "rooms lobby = rooms meeting"
  by (simp add: lobby_def meeting_sockets)

lemma lobby_session:
  "session lobby ''s1'' = Some \<lparr>userId = ''H'', roomId = ''r'', userName = ''Hana'', lastChatTime = None\<rparr>"
  by (simp add: lobby_def meeting_sockets session_def)

theorem lock_round_trip_witness:
  "snd (room_lock 3000 ''s1'' ''r'' ''pw'' lobby) = [(ToRoom ''r'', EvRoomLocked)] \<and>
   map_option (map fst \<circ> members)
     (rooms (fst (join_room 4000 ''s3'' ''r'' ''B'' ''Bob'' (Some ''pw'') (fst (room_lock 3000 ''s1'' ''r'' ''pw'' lobby)))) ''r'')
     = Some [''H'', ''A'', ''B''] \<and>
   map fst (snd (join_room 4000 ''s3'' ''r'' ''B'' ''Bob'' (Some ''pw'') (fst (room_lock 3000 ''s1'' ''r'' ''pw'' lobby))))
     = [ToSender, ToSender, ToOthers ''r''] \<and>
   snd (join_room 4000 ''s3'' ''r'' ''B'' ''Bob'' (Some ''guess'') (fst (room_lock 3000 ''s1'' ''r'' ''pw'' lobby)))
     = [(ToSender, EvPasswordRequired)] \<and>
   map_option (map fst \<circ> members)
     (rooms (fst (join_room 4000 ''s3'' ''r'' ''B'' ''Bob'' (Some ''guess'') (fst (room_lock 3000 ''s1'' ''r'' ''pw'' lobby)))) ''r'')
     = Some [''H'', ''A'']"
proof -
  have r: "rooms lobby ''r'' = Some \<lparr>locked = False, password = None, hostId = Some ''H'',
     members = [(''H'', \<lparr>id_m = ''H'', name_m = ''Hana'', isModerator = True, canDraw = True, handRaised_m = False\<rparr>),
                (''A'', \<lparr>id_m = ''A'', name_m = ''Ann'', isModerator = False, canDraw = False, handRaised_m = False\<rparr>)],
     whiteboardDrawings = [], whiteboardBackground = None, allowedUsers = {''H''},
     lastActivity = 2000, handRaised = {}\<rparr>"
    by (simp add: lobby_rooms meeting_room)
  from lock_round_trip[OF lobby_session r, where p = "''pw''" and uid = "''B''" and t = 3000 and t' = 4000
      and s' = "''s3''" and uname = "''Bob''" and pw = "Some ''guess''"]
  show ?thesis by (simp add: Let_def)
qed

subsection \<open>Chat throttle\<close>

text \<open>
  C5 (amended). Let a connection carry the stamp \<open>lastChatTime = l\<close> with \<open>l \<noteq> 0\<close>. A chat
  send at clock value \<open>t\<close> with \<open>t - l \<le> 1000\<close> is rejected: the only emission is the
  rate-limit error to the sender and the state is unchanged. With \<open>t - l > 1000\<close> it is
  accepted: the message goes to the whole room and the stamp becomes \<open>t\<close>. The stamp is
  written by an accepted send and survives every event except the connection's own
  \<open>join-room\<close>, \<open>chat:send\<close> and \<open>disconnect\<close>; so the window is measured from the
  connection's last accepted send since its last join. Both relays agree.
\<close>

theorem chat_throttle:
  assumes "session \<sigma> s = Some d" and "lastChatTime d = Some l" and "l \<noteq> 0"
  shows "(t - l \<le> 1000 \<longrightarrow>
            chat_send t rnd s rid (Some m) \<sigma> = (\<sigma>, [(ToSender, EvError ''Message rate limit exceeded'')]) \<and>
            chat_send_js t s rid (Some m) \<sigma> = (\<sigma>, [(ToSender, EvError ''Message rate limit exceeded'')])) \<and>
         (t - l > 1000 \<longrightarrow>
            snd (chat_send t rnd s rid (Some m) \<sigma>) =
              [(ToRoom rid, EvChatReceive (m\<lparr>id_msg := make_id (userId d) t rnd\<rparr>) (Some False))] \<and>
            snd (chat_send_js t s rid (Some m) \<sigma>) = [(ToRoom rid, EvChatReceive m None)] \<and>
            session (fst (chat_send t rnd s rid (Some m) \<sigma>)) s = Some (d\<lparr>lastChatTime := Some t\<rparr>) \<and>
            session (fst (chat_send_js t s rid (Some m) \<sigma>)) s = Some (d\<lparr>lastChatTime := Some t\<rparr>)) \<and>
         (s' \<noteq> s \<or> \<not> rebinds e \<longrightarrow> session (fst (handle t' rnd' s' e \<sigma>)) s = Some d)"
  using assms session_stamped[OF assms(1), of "Some t"] session_frame[of s' s e t' rnd' \<sigma>]
  by (auto simp: chat_send_def chat_send_js_def throttle_open_def)

text \<open>After an accepted send at 5000, a send at 5900 is rejected and one at 6100 accepted;
  a hand raise in between leaves the stamp alone.\<close>

lemma chatting_session:
  "session (run chatting init) ''s1'' = Some \<lparr>userId = ''H'', roomId = ''r'', userName = ''Hana'', lastChatTime = Some 5000\<rparr>"
  by (simp add: chatting_def eval_defs chat_send_def throttle_open_def)

theorem chat_throttle_witness:
  "session (run chatting init) ''s1'' =
     Some \<lparr>userId = ''H'', roomId = ''r'', userName = ''Hana'', lastChatTime = Some 5000\<rparr> \<and>
   chat_send 5900 ''q7'' ''s1'' ''r'' (Some \<lparr>id_msg = ''c2'', body_msg = ''again''\<rparr>) (run chatting init) =
     (run chatting init, [(ToSender, EvError ''Message rate limit exceeded'')]) \<and>
   snd (chat_send 6100 ''q7'' ''s1'' ''r'' (Some \<lparr>id_msg = ''c2'', body_msg = ''again''\<rparr>) (run chatting init)) =
     [(ToRoom ''r'', EvChatReceive \<lparr>id_msg = make_id ''H'' 6100 ''q7'', body_msg = ''again''\<rparr> (Some False))] \<and>
   session (fst (handle 5500 ''q7'' ''s1'' (HandRaise ''r'') (run chatting init))) ''s1'' =
     Some \<lparr>userId = ''H'', roomId = ''r'', userName = ''Hana'', lastChatTime = Some 5000\<rparr>"
  using chat_throttle[OF chatting_session, where l = 5000 and t = 5900 and rnd = "''q7''" and rid = "''r''"
      and m = "\<lparr>id_msg = ''c2'', body_msg = ''again''\<rparr>" and s' = "''s1''" and e = "HandRaise ''r''"
      and t' = 5500 and rnd' = "''q7''"]
    chat_throttle[OF chatting_session, where l = 5000 and t = 6100 and rnd = "''q7''" and rid = "''r''"
      and m = "\<lparr>id_msg = ''c2'', body_msg = ''again''\<rparr>" and s' = "''s1''" and e = "HandRaise ''r''"
      and t' = 5500 and rnd' = "''q7''"]
    chatting_session
  by simp

text \<open>
  C5 as stated fails: \<open>join-room\<close> assigns a fresh object to \<open>socket.data\<close>, which drops
  \<open>lastChatTime\<close>. A connection whose send at 5000 was accepted and which joins again at
  5100 has its send at 5200, 200 ms after the accepted one, accepted and broadcast.
\<close>

theorem rejoin_resets_throttle_counterexample:
  "snd (step 5000 ''k3x9'' (Client ''s1'' (ChatSend ''r'' (Some \<lparr>id_msg = ''c1'', body_msg = ''hello''\<rparr>)))
         (run (take 2 rejoining) init)) =
     [(ToRoom ''r'', EvChatReceive \<lparr>id_msg = make_id ''H'' 5000 ''k3x9'', body_msg = ''hello''\<rparr> (Some False))] \<and>
   snd (step 5200 ''q7'' (Client ''s1'' (ChatSend ''r'' (Some \<lparr>id_msg = ''c2'', body_msg = ''again''\<rparr>)))
         (run rejoining init)) =
     [(ToRoom ''r'', EvChatReceive \<lparr>id_msg = make_id ''H'' 5200 ''q7'', body_msg = ''again''\<rparr> (Some False))]"
  by (simp add: rejoining_def eval_defs chat_send_def throttle_open_def)

text \<open>
  C10. A rejected chat send changes nothing, in particular not \<open>lastChatTime\<close>. For a
  connection without a stamp and a first send at clock value \<open>t0 \<noteq> 0\<close>, the sends at
  \<open>t0\<close>, \<open>t0 + 900\<close> and \<open>t0 + 1100\<close> are accepted, rejected and accepted.
\<close>

theorem rejected_send_keeps_stamp:
  assumes "session \<sigma> s = Some d"
  shows "(\<not> throttle_open t d \<longrightarrow>
            fst (chat_send t rnd s rid msg \<sigma>) = \<sigma> \<and> fst (chat_send_js t s rid msg \<sigma>) = \<sigma>) \<and>
         (lastChatTime d = None \<and> t0 \<noteq> 0 \<longrightarrow>
            (let \<sigma>1 = fst (chat_send t0 r1 s rid (Some m1) \<sigma>);
                 \<sigma>2 = fst (chat_send (t0 + 900) r2 s rid (Some m2) \<sigma>1)
             in snd (chat_send t0 r1 s rid (Some m1) \<sigma>) =
                  [(ToRoom rid, EvChatReceive (m1\<lparr>id_msg := make_id (userId d) t0 r1\<rparr>) (Some False))] \<and>
                chat_send (t0 + 900) r2 s rid (Some m2) \<sigma>1 =
                  (\<sigma>1, [(ToSender, EvError ''Message rate limit exceeded'')]) \<and>
                session \<sigma>2 s = Some (d\<lparr>lastChatTime := Some t0\<rparr>) \<and>
                snd (chat_send (t0 + 1100) r3 s rid (Some m3) \<sigma>2) =
                  [(ToRoom rid, EvChatReceive (m3\<lparr>id_msg := make_id (userId d) (t0 + 1100) r3\<rparr>) (Some False))]))"
proof -
  have s1: "session (\<sigma>\<lparr>sockets := upd_conn s (\<lambda>c. c\<lparr>data := Some (d\<lparr>lastChatTime := Some t0\<rparr>)\<rparr>) (sockets \<sigma>)\<rparr>) s
      = Some (d\<lparr>lastChatTime := Some t0\<rparr>)"
    using assms by (rule session_stamped)
  show ?thesis using assms s1
    by (auto simp: chat_send_def chat_send_js_def throttle_open_def Let_def split: option.splits)
qed

text \<open>Sends at 5000, 5900 and 6100 on a fresh connection; the rejected one returns the
  state it was given.\<close>

lemma solo_session:
  "session (run solo init) ''s1'' = Some \<lparr>userId = ''H'', roomId = ''r'', userName = ''Hana'', lastChatTime = None\<rparr>"
  by (simp add: solo_def eval_defs)

theorem rejected_send_keeps_stamp_witness:
  "snd (chat_send 5000 ''k3x9'' ''s1'' ''r'' (Some \<lparr>id_msg = ''c1'', body_msg = ''one''\<rparr>) (run solo init)) =
     [(ToRoom ''r'', EvChatReceive \<lparr>id_msg = make_id ''H'' 5000 ''k3x9'', body_msg = ''one''\<rparr> (Some False))] \<and>
   snd (chat_send 5900 ''q7'' ''s1'' ''r'' (Some \<lparr>id_msg = ''c2'', body_msg = ''two''\<rparr>)
          (fst (chat_send 5000 ''k3x9'' ''s1'' ''r'' (Some \<lparr>id_msg = ''c1'', body_msg = ''one''\<rparr>) (run solo init)))) =
     [(ToSender, EvError ''Message rate limit exceeded'')] \<and>
   snd (chat_send 6100 ''z2'' ''s1'' ''r'' (Some \<lparr>id_msg = ''c3'', body_msg = ''three''\<rparr>)
          (fst (chat_send 5900 ''q7'' ''s1'' ''r'' (Some \<lparr>id_msg = ''c2'', body_msg = ''two''\<rparr>)
            (fst (chat_send 5000 ''k3x9'' ''s1'' ''r'' (Some \<lparr>id_msg = ''c1'', body_msg = ''one''\<rparr>) (run solo init)))))) =
     [(ToRoom ''r'', EvChatReceive \<lparr>id_msg = make_id ''H'' 6100 ''z2'', body_msg = ''three''\<rparr> (Some False))] \<and>
   fst (chat_send 5900 ''q7'' ''s1'' ''r'' (Some \<lparr>id_msg = ''c2'', body_msg = ''two''\<rparr>) (run chatting init)) =
     run chatting init"
proof -
  have d: "fst (chat_send 5900 ''q7'' ''s1'' ''r'' (Some \<lparr>id_msg = ''c2'', body_msg = ''two''\<rparr>) (run chatting init)) =
     run chatting init"
    using rejected_send_keeps_stamp[OF chatting_session, where t = 5900 and rnd = "''q7''"
      and msg = "Some \<lparr>id_msg = ''c2'', body_msg = ''two''\<rparr>" and rid = "''r''", THEN conjunct1]
    by (simp add: throttle_open_def)
  note w = rejected_send_keeps_stamp[OF solo_session, where t = 5900 and rnd = "''q7''"
      and msg = "Some \<lparr>id_msg = ''c2'', body_msg = ''two''\<rparr>" and rid = "''r''" and ?t0.0 = 5000
      and ?r1.0 = "''k3x9''" and ?m1.0 = "\<lparr>id_msg = ''c1'', body_msg = ''one''\<rparr>" and ?r2.0 = "''q7''"
      and ?m2.0 = "\<lparr>id_msg = ''c2'', body_msg = ''two''\<rparr>"
      and ?r3.0 = "''z2''" and ?m3.0 = "\<lparr>id_msg = ''c3'', body_msg = ''three''\<rparr>",
      THEN conjunct2, THEN mp, simplified]
  from w have a: "snd (chat_send 5000 ''k3x9'' ''s1'' ''r'' (Some \<lparr>id_msg = ''c1'', body_msg = ''one''\<rparr>) (run solo init)) =
     [(ToRoom ''r'', EvChatReceive \<lparr>id_msg = make_id ''H'' 5000 ''k3x9'', body_msg = ''one''\<rparr> (Some False))]"
    by (simp add: Let_def)
  from w have "chat_send 5900 ''q7'' ''s1'' ''r'' (Some \<lparr>id_msg = ''c2'', body_msg = ''two''\<rparr>)
          (fst (chat_send 5000 ''k3x9'' ''s1'' ''r'' (Some \<lparr>id_msg = ''c1'', body_msg = ''one''\<rparr>) (run solo init))) =
     (fst (chat_send 5000 ''k3x9'' ''s1'' ''r'' (Some \<lparr>id_msg = ''c1'', body_msg = ''one''\<rparr>) (run solo init)),
      [(ToSender, EvError ''Message rate limit exceeded'')])"
    by (simp add: Let_def)
  then have b: "snd (chat_send 5900 ''q7'' ''s1'' ''r'' (Some \<lparr>id_msg = ''c2'', body_msg = ''two''\<rparr>)
          (fst (chat_send 5000 ''k3x9'' ''s1'' ''r'' (Some \<lparr>id_msg = ''c1'', body_msg = ''one''\<rparr>) (run solo init)))) =
     [(ToSender, EvError ''Message rate limit exceeded'')]"
    by simp
  from w have c: "snd (chat_send 6100 ''z2'' ''s1'' ''r'' (Some \<lparr>id_msg = ''c3'', body_msg = ''three''\<rparr>)
          (fst (chat_send 5900 ''q7'' ''s1'' ''r'' (Some \<lparr>id_msg = ''c2'', body_msg = ''two''\<rparr>)
            (fst (chat_send 5000 ''k3x9'' ''s1'' ''r'' (Some \<lparr>id_msg = ''c1'', body_msg = ''one''\<rparr>) (run solo init)))))) =
     [(ToRoom ''r'', EvChatReceive \<lparr>id_msg = make_id ''H'' 6100 ''z2'', body_msg = ''three''\<rparr> (Some False))]"
    unfolding Let_def by (elim conjE) simp
  show ?thesis by (intro conjI a b c d)
qed

subsection \<open>Failed checks\<close>

text \<open>
  C3 (amended). When the check of an inbound event fails, the state is unchanged except
  that the handlers which call \<open>getOrCreateRoom\<close> before their check stamp
  \<open>lastActivity\<close> of the addressed room (creating it when absent); nothing is emitted to
  any connection but the sender, and what is emitted is an error signal. Only
  \<open>join-room\<close> and \<open>chat:send\<close> send one: a failed host or draw-permission check is
  silent.
\<close>

theorem failed_precondition:
  "\<not> precondition t s e \<sigma> \<Longrightarrow>
     (fst (handle t rnd s e \<sigma>) = \<sigma> \<or> fst (handle t rnd s e \<sigma>) = touch t (room_of e) \<sigma>) \<and>
     list_all (\<lambda>(a, p). a = ToSender \<and> is_error p) (snd (handle t rnd s e \<sigma>)) \<and>
     (\<not> reports e \<longrightarrow> snd (handle t rnd s e \<sigma>) = [])"
  by (cases e)
    (auto simp: touch_def is_host_def in_allowed_def join_room_def room_lock_def room_unlock_def
      chat_send_def whiteboard_enable_def
      whiteboard_disable_def whiteboard_drawing_def whiteboard_background_def whiteboard_clear_def
      allow_user_def make_host_def hand_raise_def hand_lower_def hand_lower_all_def mute_user_def
      remove_user_def reaction_send_def Let_def split: option.splits)

text \<open>In the meeting the member \<open>A\<close>, who is not the host, tries to lock the room.\<close>

theorem failed_precondition_witness:
  "\<not> precondition 3000 ''s2'' (RoomLock ''r'' ''pw'') meeting \<and>
   fst (handle 3000 ''k3x9'' ''s2'' (RoomLock ''r'' ''pw'') meeting) = touch 3000 ''r'' meeting \<and>
   snd (handle 3000 ''k3x9'' ''s2'' (RoomLock ''r'' ''pw'') meeting) = []"
proof -
  have a: "\<not> precondition 3000 ''s2'' (RoomLock ''r'' ''pw'') meeting"
    by (simp add: meeting_sockets meeting_room session_def getOrCreateRoom_def is_host_def)
  have b: "snd (handle 3000 ''k3x9'' ''s2'' (RoomLock ''r'' ''pw'') meeting) = []"
    by (simp add: meeting_sockets meeting_room session_def room_lock_def Let_def getOrCreateRoom_def)
  have c: "fst (handle 3000 ''k3x9'' ''s2'' (RoomLock ''r'' ''pw'') meeting) \<noteq> meeting"
  proof
    assume "fst (handle 3000 ''k3x9'' ''s2'' (RoomLock ''r'' ''pw'') meeting) = meeting"
    then have "map_option lastActivity (rooms (fst (handle 3000 ''k3x9'' ''s2'' (RoomLock ''r'' ''pw'') meeting)) ''r'')
        = map_option lastActivity (rooms meeting ''r'')" by simp
    then show False
      by (simp add: meeting_sockets meeting_room session_def room_lock_def Let_def getOrCreateRoom_def
          put_room_def)
  qed
  from failed_precondition[OF a, of "''k3x9''"] a b c show ?thesis by simp
qed

text \<open>
  C3 as stated fails on its own example: the failed \<open>room:lock\<close> emits no error signal,
  and it moves \<open>lastActivity\<close> of the room from 2000 to 3000.
\<close>

theorem failed_lock_counterexample:
  "\<not> precondition 3000 ''s2'' (RoomLock ''r'' ''pw'') meeting \<and>
   snd (handle 3000 ''k3x9'' ''s2'' (RoomLock ''r'' ''pw'') meeting) = [] \<and>
   map_option lastActivity (rooms meeting ''r'') = Some 2000 \<and>
   map_option lastActivity (rooms (fst (handle 3000 ''k3x9'' ''s2'' (RoomLock ''r'' ''pw'') meeting)) ''r'') = Some 3000"
  by (simp add: meeting_sockets meeting_room session_def room_lock_def Let_def getOrCreateRoom_def
      put_room_def is_host_def)

subsection \<open>Moderator controls\<close>

text \<open>
  C9 (the code at the failing input). In the meeting \<open>r\<close> the host \<open>H\<close> (socket \<open>s1\<close>)
  mutes the member \<open>A\<close> (socket \<open>s2\<close>). The handler emits \<open>moderator:force-mute\<close> with
  \<open>socket.to(userId)\<close>, that is to the socket.io room named \<open>A\<close>. No socket has joined
  a room of that name (a socket joins its own socket id and the meeting id), so nobody
  receives the signal; an emission to the meeting \<open>r\<close> would have reached \<open>s2\<close>.
\<close>

theorem mute_user_reaches_nobody:
  "snd (step 3000 ''k3x9'' (Client ''s1'' (MuteUser ''r'' ''A'')) meeting) = [(ToOthers ''A'', EvForceMute)] \<and>
   recipients (fst (step 3000 ''k3x9'' (Client ''s1'' (MuteUser ''r'' ''A'')) meeting)) ''s1'' (ToOthers ''A'') = [] \<and>
   recipients (fst (step 3000 ''k3x9'' (Client ''s1'' (MuteUser ''r'' ''A'')) meeting)) ''s1'' (ToOthers ''r'') = [''s2'']"
  by (simp add: meeting_def eval_defs mute_user_def)

end
